theory Spec2Isabelle
  imports Complex_Main "HOL-Library.Char_ord" "HOL-Library.List_Lexorder" "HOL-Library.Multiset"
begin

section \<open>Strings\<close>

text \<open>
  The resolver of \<^verbatim>\<open>chatbot/query_handler.py\<close> works on Python \<^verbatim>\<open>str\<close> values.
  A string is modelled as a \<^typ>\<open>string\<close> holding its UTF-8 bytes, so the rupee sign, the
  arrow and the typographic apostrophe of the answers are three bytes each. Where Python
  works character by character (\<^verbatim>\<open>strip\<close>, the matching of \<^verbatim>\<open>re\<close>), the bytes are
  grouped into the encodings of the code points (\<open>chars\<close>). White space is the white
  space of Unicode. Case mapping and the digits of \<^verbatim>\<open>\d\<close> and \<^verbatim>\<open>int\<close> are those of the
  ASCII range: a code point beyond it is neither letter nor digit and is left alone by
  \<^verbatim>\<open>lower\<close>.
\<close>

definition rupee :: string where
  "rupee = [CHR 0xE2, CHR 0x82, CHR 0xB9]"

definition arrow :: string where
  "arrow = [CHR 0xE2, CHR 0x86, CHR 0x92]"

definition rsquo :: string where
  "rsquo = [CHR 0xE2, CHR 0x80, CHR 0x99]"

text \<open>The number of bytes of the code point that a byte starts, and the split of a string
  into its code points.\<close>

definition utf8_len :: "char \<Rightarrow> nat" where
  "utf8_len c =
     (let n = (of_char c :: nat)
      in if n < 0xC0 then 1 else if n < 0xE0 then 2 else if n < 0xF0 then 3 else 4)"

fun chars :: "string \<Rightarrow> string list" where
  "chars [] = []"
| "chars (c # s) = (c # take (utf8_len c - 1) s) # chars (drop (utf8_len c - 1) s)"

text \<open>The code points for which \<^verbatim>\<open>str.isspace\<close> holds, in UTF-8: U+0009 to U+000D,
  U+001C to U+001F, U+0020, U+0085, U+00A0, U+1680, U+2000 to U+200A, U+2028, U+2029, U+202F,
  U+205F and U+3000. They are what \<^verbatim>\<open>str.strip\<close> removes and what \<^verbatim>\<open>\s\<close> matches.\<close>

definition white_space :: "string list" where
  "white_space =
     map (\<lambda>c. [c]) [CHR 0x09, CHR 0x0A, CHR 0x0B, CHR 0x0C, CHR 0x0D,
                    CHR 0x1C, CHR 0x1D, CHR 0x1E, CHR 0x1F, CHR 0x20]
     @ [[CHR 0xC2, CHR 0x85], [CHR 0xC2, CHR 0xA0], [CHR 0xE1, CHR 0x9A, CHR 0x80]]
     @ map (\<lambda>c. [CHR 0xE2, CHR 0x80, c])
         [CHR 0x80, CHR 0x81, CHR 0x82, CHR 0x83, CHR 0x84, CHR 0x85, CHR 0x86, CHR 0x87,
          CHR 0x88, CHR 0x89, CHR 0x8A, CHR 0xA8, CHR 0xA9, CHR 0xAF]
     @ [[CHR 0xE2, CHR 0x81, CHR 0x9F], [CHR 0xE3, CHR 0x80, CHR 0x80]]"

definition is_space_char :: "string \<Rightarrow> bool" where
  "is_space_char w = (w \<in> set white_space)"

definition is_digit :: "char \<Rightarrow> bool" where
  "is_digit c = (let n = (of_char c :: nat) in 48 \<le> n \<and> n \<le> 57)"

definition is_upper :: "char \<Rightarrow> bool" where
  "is_upper c = (let n = (of_char c :: nat) in 65 \<le> n \<and> n \<le> 90)"

definition is_lower :: "char \<Rightarrow> bool" where
  "is_lower c = (let n = (of_char c :: nat) in 97 \<le> n \<and> n \<le> 122)"

definition is_alpha :: "char \<Rightarrow> bool" where
  "is_alpha c = (is_upper c \<or> is_lower c)"

definition lower_char :: "char \<Rightarrow> char" where
  "lower_char c = (if is_upper c then char_of (of_char c + (32 :: nat)) else c)"

definition upper_char :: "char \<Rightarrow> char" where
  "upper_char c = (if is_lower c then char_of (of_char c - (32 :: nat)) else c)"

definition lower :: "string \<Rightarrow> string" where
  "lower s = map lower_char s"

text \<open>\<^verbatim>\<open>str.title\<close>: a cased character is put in upper case when the character before it
  is not cased, in lower case otherwise.\<close>

fun title_from :: "bool \<Rightarrow> string \<Rightarrow> string" where
  "title_from prev [] = []"
| "title_from prev (c # s) =
     (if prev then lower_char c else upper_char c) # title_from (is_alpha c) s"

definition title :: "string \<Rightarrow> string" where
  "title s = title_from False s"

definition strip :: "string \<Rightarrow> string" where
  "strip s = concat (rev (dropWhile is_space_char (rev (dropWhile is_space_char (chars s)))))"

text \<open>\<^verbatim>\<open>s.startswith(p)\<close> and \<^verbatim>\<open>p in s\<close>.\<close>

fun startswith :: "string \<Rightarrow> string \<Rightarrow> bool" where
  "startswith s [] = True"
| "startswith [] (p # ps) = False"
| "startswith (c # s) (p # ps) = (c = p \<and> startswith s ps)"

fun contains :: "string \<Rightarrow> string \<Rightarrow> bool" where
  "contains p [] = (p = [])"
| "contains p (c # s) = (startswith (c # s) p \<or> contains p s)"

subsection \<open>Numbers to text and back\<close>

definition digit_char :: "nat \<Rightarrow> char" where
  "digit_char d = char_of (48 + d)"

function show_nat :: "nat \<Rightarrow> string" where
  "show_nat n = (if n < 10 then [digit_char n] else show_nat (n div 10) @ [digit_char (n mod 10)])"
  by pat_completeness auto
termination
  by (relation "measure id") auto

declare show_nat.simps [simp del]

text \<open>Amounts are \<^verbatim>\<open>float64\<close> values in the source. A cell of the \<^verbatim>\<open>Amount\<close>
  column is modelled as an exact rational, the value of a finite float, with \<^verbatim>\<open>NaN\<close>
  as \<^const>\<open>None\<close>. The result of a sum or of a mean of such cells is a \<^verbatim>\<open>float64\<close>
  again: a finite value, given exactly, a negative zero, an infinity (where the sum
  overflows) or \<^verbatim>\<open>NaN\<close>. The additions themselves, with their rounding, are the
  library's and are not fixed here (see \<open>library\<close> below).\<close>

datatype float64 = Finite rat | NegZero | PosInf | NegInf | NaN

text \<open>The format \<^verbatim>\<open>:.2f\<close> rounds the exact value of a finite float to the nearest
  hundredth, a tie to the even neighbour, and keeps the sign of a negative value.\<close>

definition round_half_even :: "rat \<Rightarrow> int" where
  "round_half_even y =
     (let f = \<lfloor>y\<rfloor>; d = y - of_int f
      in if d < 1 / 2 then f else if 1 / 2 < d then f + 1 else if even f then f else f + 1)"

definition fmt2 :: "rat \<Rightarrow> string" where
  "fmt2 x =
     (let n = nat (round_half_even (\<bar>x\<bar> * 100))
      in (if x < 0 then ''-'' else '''') @ show_nat (n div 100) @ ''.''
           @ [digit_char (n mod 100 div 10), digit_char (n mod 10)])"

definition fmt2_float :: "rat option \<Rightarrow> string" where
  "fmt2_float a = (case a of None \<Rightarrow> ''nan'' | Some x \<Rightarrow> fmt2 x)"

fun fmt2_f64 :: "float64 \<Rightarrow> string" where
  "fmt2_f64 (Finite x) = fmt2 x"
| "fmt2_f64 NegZero = ''-0.00''"
| "fmt2_f64 PosInf = ''inf''"
| "fmt2_f64 NegInf = ''-inf''"
| "fmt2_f64 NaN = ''nan''"

text \<open>\<^verbatim>\<open>a >= b\<close> on floats: false when one side is \<^verbatim>\<open>NaN\<close>; the zeros are equal.\<close>

fun f64_ge :: "float64 \<Rightarrow> float64 \<Rightarrow> bool" where
  "f64_ge NaN b = False"
| "f64_ge a NaN = False"
| "f64_ge PosInf b = True"
| "f64_ge a NegInf = True"
| "f64_ge NegInf b = False"
| "f64_ge a PosInf = False"
| "f64_ge (Finite x) (Finite y) = (y \<le> x)"
| "f64_ge (Finite x) NegZero = (0 \<le> x)"
| "f64_ge NegZero (Finite y) = (y \<le> 0)"
| "f64_ge NegZero NegZero = True"

text \<open>An exception that \<^verbatim>\<open>except Exception\<close> catches, with the text of \<^verbatim>\<open>str(e)\<close>.
  \<^verbatim>\<open>ImportError\<close> is set apart because \<^verbatim>\<open>_llm_answer\<close> has a handler of its own for
  it.\<close>

datatype py_exception = Exception string | ImportError string

fun message :: "py_exception \<Rightarrow> string" where
  "message (Exception m) = m"
| "message (ImportError m) = m"

definition digits_value :: "string \<Rightarrow> nat" where
  "digits_value ds = foldl (\<lambda>a c. 10 * a + (of_char c - 48)) 0 ds"

text \<open>\<^verbatim>\<open>int(s)\<close> on a string of decimal digits. CPython refuses a string of more than
  640 digits when it is longer than the interpreter's limit
  (\<^verbatim>\<open>sys.get_int_max_str_digits()\<close>, 0 for no limit) and raises \<^verbatim>\<open>ValueError\<close>.\<close>

definition py_int :: "nat \<Rightarrow> string \<Rightarrow> py_exception + nat" where
  "py_int limit ds =
     (if 640 < length ds \<and> 0 < limit \<and> limit < length ds
      then Inl (Exception (''Exceeds the limit ('' @ show_nat limit
             @ '' digits) for integer string conversion: value has '' @ show_nat (length ds)
             @ '' digits; use sys.set_int_max_str_digits() to increase the limit''))
      else Inr (digits_value ds))"

section \<open>Regular expressions\<close>

text \<open>The patterns of the resolver are sequences of literal characters, character
  classes, greedy \<^verbatim>\<open>+\<close> repetitions of a class, and unnested groups. \<^verbatim>\<open>re.search\<close>
  is a backtracking matcher: it tries the start positions from the left and, at a
  repetition, the longest run first. It works on the code points of the string.\<close>

datatype cclass = Space | Digit | Alpha | AlphaSpace

fun in_class :: "cclass \<Rightarrow> string \<Rightarrow> bool" where
  "in_class Space w = is_space_char w"
| "in_class Digit w = (case w of [c] \<Rightarrow> is_digit c | _ \<Rightarrow> False)"
| "in_class Alpha w = (case w of [c] \<Rightarrow> is_alpha c | _ \<Rightarrow> False)"
| "in_class AlphaSpace w = ((case w of [c] \<Rightarrow> is_alpha c | _ \<Rightarrow> False) \<or> is_space_char w)"

datatype rx = Chr char | One cclass | Many cclass | GroupStart | GroupEnd

definition lit :: "string \<Rightarrow> rx list" where
  "lit s = map Chr s"

text \<open>\<open>rx_match r s g gs\<close>: match \<open>r\<close> at the front of the code points \<open>s\<close>; \<open>g\<close> is the
  input as it was where the open group started, \<open>gs\<close> the groups closed so far, last
  first.\<close>

fun rx_match ::
  "rx list \<Rightarrow> string list \<Rightarrow> string list \<Rightarrow> string list \<Rightarrow> string list option" where
  "rx_match [] s g gs = Some (rev gs)"
| "rx_match (Chr c # r) [] g gs = None"
| "rx_match (Chr c # r) (x # xs) g gs = (if x = [c] then rx_match r xs g gs else None)"
| "rx_match (One k # r) [] g gs = None"
| "rx_match (One k # r) (x # xs) g gs = (if in_class k x then rx_match r xs g gs else None)"
| "rx_match (Many k # r) [] g gs = None"
| "rx_match (Many k # r) (x # xs) g gs =
     (if in_class k x
      then (case rx_match (Many k # r) xs g gs of
              Some res \<Rightarrow> Some res
            | None \<Rightarrow> rx_match r xs g gs)
      else None)"
| "rx_match (GroupStart # r) s g gs = rx_match r s s gs"
| "rx_match (GroupEnd # r) s g gs =
     rx_match r s g (concat (take (length g - length s) g) # gs)"

fun rx_search :: "rx list \<Rightarrow> string list \<Rightarrow> string list option" where
  "rx_search r [] = rx_match r [] [] []"
| "rx_search r (x # xs) =
     (case rx_match r (x # xs) [] [] of
        Some gs \<Rightarrow> Some gs
      | None \<Rightarrow> rx_search r xs)"

text \<open>\<^verbatim>\<open>re.search(pattern, s)\<close>: the groups of the first match, if there is one.\<close>

definition re_search :: "rx list \<Rightarrow> string \<Rightarrow> string list option" where
  "re_search r s = rx_search r (chars s)"

section \<open>The dataset\<close>

text \<open>\<^verbatim>\<open>load_data()\<close> of \<^verbatim>\<open>utils/helpers.py\<close> returns a pandas \<^verbatim>\<open>DataFrame\<close>: the
  names of its columns and its rows, the index being the positions \<open>0, 1, ...\<close>
  (\<^verbatim>\<open>reset_index(drop=True)\<close>). The \<^verbatim>\<open>Date\<close> column holds timestamps, \<^verbatim>\<open>NaT\<close> where
  the text of the file was no date; a missing cell of another column is \<^verbatim>\<open>NaN\<close>. Both
  are \<^const>\<open>None\<close> here. The columns have the types \<^verbatim>\<open>read_csv\<close> gives them for a
  well-formed file: numbers in \<^verbatim>\<open>Amount\<close>, text in \<^verbatim>\<open>Category\<close> and \<^verbatim>\<open>Note\<close>. The
  field of a row for a column that the frame does not have is not read.\<close>

record timestamp =
  ts_year :: nat
  ts_month :: nat
  ts_day :: nat
  ts_time :: nat

record row =
  Date :: "timestamp option"
  Category :: "string option"
  Amount :: "rat option"
  Note :: "string option"

record dataframe =
  columns :: "string list"
  rows :: "row list"

definition df_empty :: "dataframe \<Rightarrow> bool" where
  "df_empty df = (columns df = [] \<or> rows df = [])"

definition has_column :: "dataframe \<Rightarrow> string \<Rightarrow> bool" where
  "has_column df c = (c \<in> set (columns df))"

definition ts_date :: "timestamp \<Rightarrow> nat \<times> nat \<times> nat" where
  "ts_date t = (ts_year t, ts_month t, ts_day t)"

definition ts_le :: "timestamp \<Rightarrow> timestamp \<Rightarrow> bool" where
  "ts_le a b =
     (ts_year a < ts_year b \<or> (ts_year a = ts_year b \<and>
       (ts_month a < ts_month b \<or> (ts_month a = ts_month b \<and>
         (ts_day a < ts_day b \<or> (ts_day a = ts_day b \<and> ts_time a \<le> ts_time b))))))"

definition pad_left :: "nat \<Rightarrow> string \<Rightarrow> string" where
  "pad_left w s = replicate (w - length s) CHR ''0'' @ s"

text \<open>\<^verbatim>\<open>str(t.date())\<close>.\<close>

definition str_date :: "timestamp \<Rightarrow> string" where
  "str_date t = pad_left 4 (show_nat (ts_year t)) @ ''-'' @ pad_left 2 (show_nat (ts_month t))
     @ ''-'' @ pad_left 2 (show_nat (ts_day t))"

text \<open>What the resolver takes from pandas and from the interpreter without fixing it
  itself: the rendering of a frame and of a timestamp, the parsing of dates, the order
  of iteration of a \<^verbatim>\<open>set\<close> of strings, the order \<^verbatim>\<open>sort_values\<close> leaves equal values
  in, the digit limit of \<^verbatim>\<open>int\<close>, and the arithmetic of \<^verbatim>\<open>float64\<close>: the sum of a
  series that has values (\<^verbatim>\<open>float(s.sum())\<close>), the sum of the numbers of a group of
  \<^verbatim>\<open>groupby\<close>, and the mean of a series, each with the rounding of the additions the
  library makes. A parser gives \<^const>\<open>None\<close> where pandas raises.\<close>

record library =
  to_string :: "string list \<Rightarrow> row list \<Rightarrow> string"
  str_timestamp :: "timestamp \<Rightarrow> string"
  to_datetime :: "string \<Rightarrow> timestamp option"
  to_datetime_dayfirst :: "string \<Rightarrow> timestamp option"
  set_order :: "string list \<Rightarrow> string list"
  sort_values_desc :: "(string \<times> float64) list \<Rightarrow> (string \<times> float64) list"
  int_max_str_digits :: nat
  series_sum :: "rat list \<Rightarrow> float64"
  groupby_sum :: "rat list \<Rightarrow> float64"
  series_mean :: "float64 list \<Rightarrow> float64"

definition fillna0 :: "rat option \<Rightarrow> rat" where
  "fillna0 a = (case a of None \<Rightarrow> 0 | Some x \<Rightarrow> x)"

text \<open>\<^verbatim>\<open>float(series.fillna(0).sum())\<close> over the \<^verbatim>\<open>Amount\<close> cells of some rows: the sum
  of an empty series is 0, that of another series is the \<^verbatim>\<open>float64\<close> sum of the
  library.\<close>

definition sum_amount :: "library \<Rightarrow> row list \<Rightarrow> float64" where
  "sum_amount lib rs =
     (if rs = [] then Finite 0 else series_sum lib (map (\<lambda>r. fillna0 (Amount r)) rs))"

text \<open>The sum of the \<^verbatim>\<open>Amount\<close> cells of one group of \<^verbatim>\<open>groupby(...)["Amount"].sum()\<close>:
  \<^verbatim>\<open>NaN\<close> cells are skipped, and a group without numbers sums to 0.\<close>

definition group_amount :: "library \<Rightarrow> row list \<Rightarrow> float64" where
  "group_amount lib rs =
     (if List.map_filter Amount rs = [] then Finite 0
      else groupby_sum lib (List.map_filter Amount rs))"

definition tail :: "nat \<Rightarrow> row list \<Rightarrow> row list" where
  "tail n rs = drop (length rs - n) rs"

definition clamp_count :: "nat \<Rightarrow> nat" where
  "clamp_count n = max 1 (min n 50)"

definition preview_cols :: "dataframe \<Rightarrow> string list" where
  "preview_cols df = filter (has_column df) [''Date'', ''Category'', ''Amount'', ''Note'']"

text \<open>\<^verbatim>\<open>idxmax\<close> and \<^verbatim>\<open>idxmin\<close> give the first position of the greatest and of the least
  value, and raise on an empty series.\<close>

fun first_index :: "rat \<Rightarrow> rat list \<Rightarrow> nat" where
  "first_index v [] = 0"
| "first_index v (x # xs) = (if x = v then 0 else Suc (first_index v xs))"

definition idxmax :: "rat list \<Rightarrow> py_exception + nat" where
  "idxmax xs =
     (case xs of
        [] \<Rightarrow> Inl (Exception ''attempt to get argmax of an empty sequence'')
      | x # ys \<Rightarrow> Inr (first_index (fold max ys x) xs))"

definition idxmin :: "rat list \<Rightarrow> py_exception + nat" where
  "idxmin xs =
     (case xs of
        [] \<Rightarrow> Inl (Exception ''attempt to get argmin of an empty sequence'')
      | x # ys \<Rightarrow> Inr (first_index (fold min ys x) xs))"

text \<open>\<^verbatim>\<open>str(row.get(c, ""))\<close> for the cells of a row.\<close>

definition str_cell :: "string option \<Rightarrow> string" where
  "str_cell c = (case c of None \<Rightarrow> ''nan'' | Some s \<Rightarrow> s)"

definition row_category :: "dataframe \<Rightarrow> row \<Rightarrow> string" where
  "row_category df r = (if has_column df ''Category'' then str_cell (Category r) else '''')"

definition row_date :: "library \<Rightarrow> dataframe \<Rightarrow> row \<Rightarrow> string" where
  "row_date lib df r =
     (if has_column df ''Date''
      then (case Date r of None \<Rightarrow> ''NaT'' | Some t \<Rightarrow> str_timestamp lib t)
      else '''')"

definition row_note :: "dataframe \<Rightarrow> row \<Rightarrow> string" where
  "row_note df r = strip (if has_column df ''Note'' then str_cell (Note r) else '''')"

definition extreme_text :: "library \<Rightarrow> dataframe \<Rightarrow> string \<Rightarrow> row \<Rightarrow> string" where
  "extreme_text lib df which r =
     which @ '' expense: '' @ rupee @ fmt2_float (Amount r) @ '' on '' @ row_date lib df r
       @ '' ('' @ row_category df r @ '').''
       @ (if row_note df r \<noteq> [] then '' Note: '' @ row_note df r @ ''.'' else '''')"

section \<open>The rules of the resolver\<close>

text \<open>\<^verbatim>\<open>_rule_based_answer\<close> tries its rules in the order of the source text; a rule
  that does not apply gives \<^const>\<open>None\<close> and the next one is tried. A rule that applies
  gives its answer, or the exception raised while computing it. Every rule reads the
  query in lower case (\<open>low\<close>).\<close>

definition match_group :: "string list \<Rightarrow> nat \<Rightarrow> string" where
  "match_group gs i = gs ! (i - 1)"

definition dated :: "row list \<Rightarrow> row list" where
  "dated rs = filter (\<lambda>r. Date r \<noteq> None) rs"

definition rule_total :: "library \<Rightarrow> string \<Rightarrow> dataframe \<Rightarrow> (py_exception + string) option" where
  "rule_total lib low df =
     (if contains ''total spent'' low \<or> contains ''how much did i spend'' low
         \<or> contains ''total spend'' low
      then Some (Inr (''You've spent a total of '' @ rupee @ fmt2_f64 (sum_amount lib (rows df)) @ ''.''))
      else None)"

definition rx_last_n :: "rx list" where
  "rx_last_n = lit ''last'' @ [Many Space, GroupStart, Many Digit, GroupEnd, Many Space]
     @ lit ''expenses''"

definition rule_last_n :: "library \<Rightarrow> string \<Rightarrow> dataframe \<Rightarrow> (py_exception + string) option" where
  "rule_last_n lib low df =
     (case re_search rx_last_n low of
        None \<Rightarrow> None
      | Some gs \<Rightarrow>
          Some (case py_int (int_max_str_digits lib) (match_group gs 1) of
                  Inl e \<Rightarrow> Inl e
                | Inr n \<Rightarrow> Inr (to_string lib (preview_cols df) (tail (clamp_count n) (rows df)))))"

definition rule_show_last_5 :: "library \<Rightarrow> string \<Rightarrow> dataframe \<Rightarrow> (py_exception + string) option" where
  "rule_show_last_5 lib low df =
     (if contains ''show last 5 expenses'' low
      then Some (Inr (to_string lib (preview_cols df) (tail 5 (rows df))))
      else None)"

definition filled_amounts :: "dataframe \<Rightarrow> rat list" where
  "filled_amounts df = map (\<lambda>r. fillna0 (Amount r)) (rows df)"

definition rule_largest :: "library \<Rightarrow> string \<Rightarrow> dataframe \<Rightarrow> (py_exception + string) option" where
  "rule_largest lib low df =
     (if contains ''largest expense'' low
      then Some (case idxmax (filled_amounts df) of
                   Inl e \<Rightarrow> Inl e
                 | Inr idx \<Rightarrow> Inr (extreme_text lib df ''Largest'' (rows df ! idx)))
      else None)"

definition rule_smallest :: "library \<Rightarrow> string \<Rightarrow> dataframe \<Rightarrow> (py_exception + string) option" where
  "rule_smallest lib low df =
     (if contains ''smallest expense'' low
      then Some (case idxmin (filled_amounts df) of
                   Inl e \<Rightarrow> Inl e
                 | Inr idx \<Rightarrow> Inr (extreme_text lib df ''Smallest'' (rows df ! idx)))
      else None)"

definition row_day :: "row \<Rightarrow> (nat \<times> nat \<times> nat) option" where
  "row_day r = map_option ts_date (Date r)"

text \<open>The sums of the groups of \<^verbatim>\<open>groupby(tmp["_dt"].dt.date)["Amount"].sum()\<close>.\<close>

definition daily_sums :: "library \<Rightarrow> row list \<Rightarrow> float64 list" where
  "daily_sums lib tmp =
     map (\<lambda>d. group_amount lib (filter (\<lambda>r. row_day r = d) tmp)) (remdups (map row_day tmp))"

definition rule_average :: "library \<Rightarrow> string \<Rightarrow> dataframe \<Rightarrow> (py_exception + string) option" where
  "rule_average lib low df =
     (if contains ''average daily spend'' low \<and> has_column df ''Date''
      then (let tmp = dated (rows df); daily = daily_sums lib tmp
            in if tmp = [] then Some (Inr ''Dates are not parseable to compute daily average.'')
               else if daily = [] then Some (Inr ''No daily data available.'')
               else Some (Inr (''Average daily spend: '' @ rupee
                      @ fmt2_f64 (series_mean lib daily) @ ''.'')))
      else None)"

text \<open>The category rule goes through \<^verbatim>\<open>known_cats\<close>, a \<^verbatim>\<open>set\<close>, and stops at the first
  label that occurs in the query.\<close>

definition known_cats :: "library \<Rightarrow> dataframe \<Rightarrow> string list" where
  "known_cats lib df = set_order lib (remdups (map lower (List.map_filter Category (rows df))))"

definition rule_category :: "library \<Rightarrow> string \<Rightarrow> dataframe \<Rightarrow> (py_exception + string) option" where
  "rule_category lib low df =
     (if has_column df ''Category''
      then (case find (\<lambda>cat. contains cat low) (known_cats lib df) of
              None \<Rightarrow> None
            | Some matched_cat \<Rightarrow>
                if matched_cat = [] then None
                else Some (Inr (''You spent '' @ rupee
                       @ fmt2_f64 (sum_amount lib
                            (filter (\<lambda>r. map_option lower (Category r) = Some matched_cat) (rows df)))
                       @ '' on '' @ matched_cat @ ''.'')))
      else None)"

definition rx_compare :: "rx list" where
  "rx_compare = lit ''compare'' @ [Many Space, GroupStart, Many AlphaSpace, GroupEnd, Many Space]
     @ lit ''vs'' @ [Many Space, GroupStart, Many AlphaSpace, GroupEnd]"

definition sum_cat :: "library \<Rightarrow> dataframe \<Rightarrow> string \<Rightarrow> float64" where
  "sum_cat lib df name =
     sum_amount lib (filter (\<lambda>r. contains (lower name) (lower (str_cell (Category r)))) (rows df))"

definition rule_compare :: "library \<Rightarrow> string \<Rightarrow> dataframe \<Rightarrow> (py_exception + string) option" where
  "rule_compare lib low df =
     (case re_search rx_compare low of
        None \<Rightarrow> None
      | Some gs \<Rightarrow>
          if has_column df ''Category''
          then (let a = strip (match_group gs 1); b = strip (match_group gs 2);
                    av = sum_cat lib df a; bv = sum_cat lib df b;
                    winner = (if f64_ge av bv then a else b)
                in Some (Inr (title a @ '': '' @ rupee @ fmt2_f64 av @ '' vs '' @ title b @ '': ''
                       @ rupee @ fmt2_f64 bv @ '' '' @ arrow @ '' Higher: '' @ title winner @ ''.'')))
          else None)"

definition rx_month_year :: "rx list" where
  "rx_month_year = [Many Space, GroupStart, Many Alpha, GroupEnd, Many Space,
     GroupStart, One Digit, One Digit, One Digit, One Digit, GroupEnd]"

definition rx_monthly :: "rx list" where
  "rx_monthly = lit ''monthly'' @ [Many Space] @ lit ''total'' @ [Many Space] @ lit ''for''
     @ rx_month_year"

definition rx_spend_in :: "rx list" where
  "rx_spend_in = lit ''spend'' @ [Many Space] @ lit ''in'' @ rx_month_year"

definition in_month :: "nat \<Rightarrow> nat \<Rightarrow> row \<Rightarrow> bool" where
  "in_month year month_num r =
     (case Date r of None \<Rightarrow> False | Some t \<Rightarrow> ts_year t = year \<and> ts_month t = month_num)"

text \<open>The body of the \<^verbatim>\<open>try\<close> of the two month rules: \<^const>\<open>None\<close> when
  \<^verbatim>\<open>pd.to_datetime\<close> raises, which the rule passes over.\<close>

definition month_total :: "library \<Rightarrow> row list \<Rightarrow> string \<Rightarrow> nat \<Rightarrow> float64 option" where
  "month_total lib tmp month_name year =
     (case to_datetime_dayfirst lib (''01 '' @ month_name @ '' '' @ show_nat year) of
        None \<Rightarrow> None
      | Some t \<Rightarrow> Some (sum_amount lib (filter (in_month year (ts_month t)) tmp)))"

definition rule_month ::
  "rx list \<Rightarrow> string \<Rightarrow> library \<Rightarrow> string \<Rightarrow> dataframe \<Rightarrow> (py_exception + string) option" where
  "rule_month pattern label lib low df =
     (if has_column df ''Date''
      then (case re_search pattern low of
              None \<Rightarrow> None
            | Some gs \<Rightarrow>
                if dated (rows df) = [] then None
                else (case py_int (int_max_str_digits lib) (match_group gs 2) of
                        Inl e \<Rightarrow> Some (Inl e)
                      | Inr year \<Rightarrow>
                         (case month_total lib (dated (rows df)) (match_group gs 1) year of
                            None \<Rightarrow> None
                          | Some month_sum \<Rightarrow>
                              Some (Inr (label @ title (match_group gs 1) @ '' '' @ show_nat year
                                @ '': '' @ rupee @ fmt2_f64 month_sum @ ''.'')))))
      else None)"

definition rule_monthly :: "library \<Rightarrow> string \<Rightarrow> dataframe \<Rightarrow> (py_exception + string) option" where
  "rule_monthly lib low df = rule_month rx_monthly ''Total for '' lib low df"

definition rule_spend_in :: "library \<Rightarrow> string \<Rightarrow> dataframe \<Rightarrow> (py_exception + string) option" where
  "rule_spend_in lib low df = rule_month rx_spend_in ''Spend in '' lib low df"

definition rx_iso_date :: "rx list" where
  "rx_iso_date = [GroupStart, One Digit, One Digit, One Digit, One Digit, Chr CHR ''-'',
     One Digit, One Digit, Chr CHR ''-'', One Digit, One Digit, GroupEnd]"

definition rx_between :: "rx list" where
  "rx_between = lit ''expenses'' @ [Many Space] @ lit ''between'' @ [Many Space] @ rx_iso_date
     @ [Many Space] @ lit ''and'' @ [Many Space] @ rx_iso_date"

definition in_range :: "timestamp \<Rightarrow> timestamp \<Rightarrow> row \<Rightarrow> bool" where
  "in_range start finish r =
     (case Date r of None \<Rightarrow> False | Some t \<Rightarrow> ts_le start t \<and> ts_le t finish)"

definition rule_between :: "library \<Rightarrow> string \<Rightarrow> dataframe \<Rightarrow> (py_exception + string) option" where
  "rule_between lib low df =
     (if has_column df ''Date''
      then (case re_search rx_between low of
              None \<Rightarrow> None
            | Some gs \<Rightarrow>
                if dated (rows df) = [] then None
                else (case to_datetime lib (match_group gs 1) of
                        None \<Rightarrow> None
                      | Some start \<Rightarrow>
                         (case to_datetime lib (match_group gs 2) of
                            None \<Rightarrow> None
                          | Some finish \<Rightarrow>
                              Some (Inr (''Total between '' @ str_date start @ '' and ''
                                @ str_date finish @ '': '' @ rupee
                                @ fmt2_f64 (sum_amount lib (filter (in_range start finish) (dated (rows df))))
                                @ ''.'')))))
      else None)"

definition rx_summarize :: "rx list" where
  "rx_summarize = lit ''summarize'' @ [Many Space] @ lit ''last''
     @ [Many Space, GroupStart, Many Digit, GroupEnd, Many Space] @ lit ''expenses''"

definition summarize_text :: "library \<Rightarrow> dataframe \<Rightarrow> nat \<Rightarrow> string" where
  "summarize_text lib df n =
     (let out = tail n (rows df)
      in ''Last '' @ show_nat n @ '' expenses (total '' @ rupee
           @ fmt2_f64 (if has_column df ''Amount'' then sum_amount lib out else Finite 0) @ ''):'' @ [CHR 0x0A]
           @ to_string lib (preview_cols df) out)"

definition rule_summarize :: "library \<Rightarrow> string \<Rightarrow> dataframe \<Rightarrow> (py_exception + string) option" where
  "rule_summarize lib low df =
     (if contains ''summarize last'' low \<and> contains ''expenses'' low
      then Some (case (case re_search rx_summarize low of
                         None \<Rightarrow> Inr 10
                       | Some gs \<Rightarrow> py_int (int_max_str_digits lib) (match_group gs 1)) of
                   Inl e \<Rightarrow> Inl e
                 | Inr n \<Rightarrow> Inr (summarize_text lib df (clamp_count n)))
      else None)"

text \<open>\<^verbatim>\<open>df.groupby(category_series.str.title())["Amount"].sum()\<close>: one group for each
  title-cased label, \<^verbatim>\<open>NaN\<close> labels left out, in the order of the labels.\<close>

definition category_totals :: "library \<Rightarrow> dataframe \<Rightarrow> (string \<times> float64) list" where
  "category_totals lib df =
     map (\<lambda>k. (k, group_amount lib (filter (\<lambda>r. map_option title (Category r) = Some k) (rows df))))
       (sort (remdups (map title (List.map_filter Category (rows df)))))"

definition rule_top :: "library \<Rightarrow> string \<Rightarrow> dataframe \<Rightarrow> (py_exception + string) option" where
  "rule_top lib low df =
     (if (contains ''top'' low \<and> contains ''category'' low)
         \<or> (contains ''highest'' low \<and> contains ''category'' low)
      then Some (Inr (if \<not> has_column df ''Category''
                      then ''Couldn't find the 'Category' column in your data.''
                      else (case sort_values_desc lib (category_totals lib df) of
                              [] \<Rightarrow> ''No categorized expenses found.''
                            | (top_cat, top_val) # rest \<Rightarrow>
                                ''Top category: '' @ top_cat @ '' with '' @ rupee @ fmt2_f64 top_val
                                  @ ''.'')))
      else None)"

definition no_data_message :: string where
  "no_data_message = ''No expense data available yet. Add some expenses first.''"

definition fallback_message :: string where
  "fallback_message = ''Sorry, I didn'' @ rsquo @ ''t understand that. Try asking things like 'total spent', 'food expenses', or 'top category'.''"

fun first_answer :: "(py_exception + string) option list \<Rightarrow> py_exception + string" where
  "first_answer [] = Inr fallback_message"
| "first_answer (None # rs) = first_answer rs"
| "first_answer (Some a # rs) = a"

text \<open>The body of the \<^verbatim>\<open>try\<close> of \<^verbatim>\<open>_rule_based_answer\<close>; \<open>load\<close> is what
  \<^verbatim>\<open>load_data()\<close> did: it raised, or it returned \<^verbatim>\<open>None\<close> or a frame.\<close>

definition rule_based_body ::
  "library \<Rightarrow> string \<Rightarrow> py_exception + dataframe option \<Rightarrow> py_exception + string" where
  "rule_based_body lib query load =
     (case load of
        Inl e \<Rightarrow> Inl e
      | Inr None \<Rightarrow> Inr no_data_message
      | Inr (Some df) \<Rightarrow>
          if df_empty df then Inr no_data_message
          else if \<not> has_column df ''Amount''
          then Inr ''Couldn't find the 'Amount' column in your data.''
          else (let low = lower query
                in first_answer
                     [rule_total lib low df,
                      rule_last_n lib low df,
                      rule_show_last_5 lib low df,
                      rule_largest lib low df,
                      rule_smallest lib low df,
                      rule_average lib low df,
                      rule_category lib low df,
                      rule_compare lib low df,
                      rule_monthly lib low df,
                      rule_spend_in lib low df,
                      rule_between lib low df,
                      rule_summarize lib low df,
                      rule_top lib low df]))"

definition rule_based_answer ::
  "library \<Rightarrow> string \<Rightarrow> py_exception + dataframe option \<Rightarrow> string" where
  "rule_based_answer lib query load =
     (case rule_based_body lib query load of
        Inl e \<Rightarrow> ''Error processing query: '' @ message e
      | Inr answer \<Rightarrow> answer)"

section \<open>Answering a query\<close>

text \<open>\<^verbatim>\<open>handle_query\<close> asks the language model first. What it depends on outside the
  program: what \<^verbatim>\<open>load_data()\<close> does (the file is taken not to change during one
  query), the key found by \<^verbatim>\<open>_get_openai_key\<close>, what \<^verbatim>\<open>from openai import OpenAI\<close>
  and the construction of the client raise, if anything, and the outcome of the request:
  the text of the reply, or the exception raised by the request or by reading the
  content of the reply. The calls made are recorded as events.\<close>

text \<open>The context of \<^verbatim>\<open>_load_context\<close>. \<^verbatim>\<open>rows_preview\<close> is a list of dictionaries,
  one a row, with the columns of the frame as keys: here the columns and the rows.\<close>

record llm_context =
  total_spent :: float64
  top_categories :: "(string \<times> float64) list"
  preview_columns :: "string list"
  rows_preview :: "row list"

record services =
  load_data :: "py_exception + dataframe option"
  openai_api_key :: "string option"
  import_openai :: "py_exception option"
  openai_client :: "py_exception option"
  chat_completion :: "string \<Rightarrow> llm_context \<Rightarrow> py_exception + string"

datatype event = LoadData | ChatCompletion | RuleBasedAnswer

definition empty_context :: llm_context where
  "empty_context =
     \<lparr>total_spent = Finite 0, top_categories = [], preview_columns = [], rows_preview = []\<rparr>"

text \<open>\<^verbatim>\<open>df.groupby("Category")["Amount"].sum()\<close>.\<close>

definition category_sums :: "library \<Rightarrow> dataframe \<Rightarrow> (string \<times> float64) list" where
  "category_sums lib df =
     map (\<lambda>k. (k, group_amount lib (filter (\<lambda>r. Category r = Some k) (rows df))))
       (sort (remdups (List.map_filter Category (rows df))))"

definition load_context :: "library \<Rightarrow> py_exception + dataframe option \<Rightarrow> llm_context" where
  "load_context lib load =
     (case load of
        Inl e \<Rightarrow> empty_context
      | Inr None \<Rightarrow> empty_context
      | Inr (Some df) \<Rightarrow>
          if df_empty df then empty_context
          else if \<not> has_column df ''Amount'' \<or> \<not> has_column df ''Category'' then empty_context
          else \<lparr>total_spent = sum_amount lib (rows df),
                top_categories = take 5 (sort_values_desc lib (category_sums lib df)),
                preview_columns = columns df,
                rows_preview = take 10 (rows df)\<rparr>)"

text \<open>\<^verbatim>\<open>json.dumps(context, ensure_ascii=False)\<close> writes numbers, strings, dictionaries
  and lists, and raises \<^verbatim>\<open>TypeError\<close> at the first other value. The first such value
  of a context is the \<^verbatim>\<open>Date\<close> cell of the first row of the preview, a pandas
  \<^verbatim>\<open>Timestamp\<close> or \<^verbatim>\<open>NaT\<close>: \<^verbatim>\<open>to_dict(orient="records")\<close> keeps them as they are. Only
  whether the call raises, and what, is of consequence here; the text it returns
  otherwise is a function of the context, as is the request.\<close>

definition json_dumps_error :: "llm_context \<Rightarrow> py_exception option" where
  "json_dumps_error ctx =
     (case rows_preview ctx of
        [] \<Rightarrow> None
      | r # rs \<Rightarrow>
          if ''Date'' \<in> set (preview_columns ctx)
          then Some (Exception (''Object of type ''
                 @ (case Date r of None \<Rightarrow> ''NaTType'' | Some t \<Rightarrow> ''Timestamp'')
                 @ '' is not JSON serializable''))
          else None)"

definition not_configured_message :: string where
  "not_configured_message = ''ChatGPT integration is not configured. Set OPENAI_API_KEY in your environment or .streamlit/secrets.toml to enable AI responses.''"

definition not_installed_message :: string where
  "not_installed_message = ''The 'openai' package is not installed. Add 'openai' to requirements and run pip install.''"

text \<open>The body of the \<^verbatim>\<open>try\<close> of \<^verbatim>\<open>_llm_answer\<close>, statement by statement: the import,
  the client, the context as JSON, the request, and the stripped content of the
  reply.\<close>

definition llm_answer_body ::
  "services \<Rightarrow> string \<Rightarrow> llm_context \<Rightarrow> (py_exception + string) \<times> event list" where
  "llm_answer_body sv query ctx =
     (case import_openai sv of
        Some e \<Rightarrow> (Inl e, [])
      | None \<Rightarrow>
          (case openai_client sv of
             Some e \<Rightarrow> (Inl e, [])
           | None \<Rightarrow>
               (case json_dumps_error ctx of
                  Some e \<Rightarrow> (Inl e, [])
                | None \<Rightarrow>
                    (case chat_completion sv query ctx of
                       Inl e \<Rightarrow> (Inl e, [ChatCompletion])
                     | Inr content \<Rightarrow> (Inr (strip content), [ChatCompletion])))))"

definition llm_answer :: "services \<Rightarrow> string \<Rightarrow> llm_context \<Rightarrow> string \<times> event list" where
  "llm_answer sv query ctx =
     (case openai_api_key sv of
        None \<Rightarrow> (not_configured_message, [])
      | Some api_key \<Rightarrow>
          if api_key = [] then (not_configured_message, [])
          else (case llm_answer_body sv query ctx of
                  (Inl (ImportError m), called) \<Rightarrow> (not_installed_message, called)
                | (Inl (Exception m), called) \<Rightarrow> (''AI response error: '' @ m, called)
                | (Inr answer, called) \<Rightarrow> (answer, called)))"

definition is_failure_answer :: "string \<Rightarrow> bool" where
  "is_failure_answer ai_answer =
     (startswith ai_answer ''ChatGPT integration is not configured''
      \<or> startswith ai_answer ''The 'openai' package is not installed''
      \<or> startswith ai_answer ''AI response error'')"

definition handle_query :: "library \<Rightarrow> services \<Rightarrow> string option \<Rightarrow> string \<times> event list" where
  "handle_query lib sv user_input =
     (let query = strip (case user_input of None \<Rightarrow> '''' | Some s \<Rightarrow> s)
      in if query = [] then (''Please enter a question.'', [])
         else (let ctx = load_context lib (load_data sv);
                   (ai_answer, called) = llm_answer sv query ctx
               in if is_failure_answer ai_answer
                  then (rule_based_answer lib query (load_data sv),
                        [LoadData] @ called @ [RuleBasedAnswer, LoadData])
                  else (ai_answer, [LoadData] @ called)))"

section \<open>A library instance and sample data\<close>

text \<open>A plain instance of the library: a frame is rendered one row a line, a set is
  iterated and equal values are left in the order given, the day-first parser knows the
  English month names, the limit of \<^verbatim>\<open>int\<close> is CPython's default, and sums and means
  are exact, as those of \<^verbatim>\<open>float64\<close> are on the sample data below, whose amounts are
  small whole numbers.\<close>

definition plain_mean :: "float64 list \<Rightarrow> float64" where
  "plain_mean xs =
     (if list_all (\<lambda>x. case x of Finite v \<Rightarrow> True | _ \<Rightarrow> False) xs \<and> xs \<noteq> []
      then Finite (sum_list (map (\<lambda>x. case x of Finite v \<Rightarrow> v | _ \<Rightarrow> 0) xs)
             / of_nat (length xs))
      else NaN)"

definition plain_cell_date :: "timestamp option \<Rightarrow> string" where
  "plain_cell_date d = (case d of None \<Rightarrow> ''NaT'' | Some t \<Rightarrow> str_date t)"

definition plain_row :: "row \<Rightarrow> string" where
  "plain_row r = plain_cell_date (Date r) @ '' '' @ str_cell (Category r) @ '' ''
     @ fmt2_float (Amount r) @ '' '' @ str_cell (Note r)"

definition plain_to_string :: "string list \<Rightarrow> row list \<Rightarrow> string" where
  "plain_to_string cols rs = concat (map (\<lambda>r. plain_row r @ [CHR 0x0A]) rs)"

definition month_table :: "(string \<times> nat) list" where
  "month_table = [(''january'', 1), (''february'', 2), (''march'', 3), (''april'', 4),
     (''may'', 5), (''june'', 6), (''july'', 7), (''august'', 8), (''september'', 9),
     (''october'', 10), (''november'', 11), (''december'', 12)]"

definition plain_dayfirst :: "string \<Rightarrow> timestamp option" where
  "plain_dayfirst s =
     (case rx_match (lit ''01 '' @ [GroupStart, Many Alpha, GroupEnd, Chr CHR '' '',
                       GroupStart, Many Digit, GroupEnd]) (chars s) [] [] of
        None \<Rightarrow> None
      | Some gs \<Rightarrow>
          (case map_of month_table (lower (match_group gs 1)) of
             None \<Rightarrow> None
           | Some m \<Rightarrow> Some \<lparr>ts_year = digits_value (match_group gs 2), ts_month = m, ts_day = 1,
                             ts_time = 0\<rparr>))"

definition plain_library :: library where
  "plain_library =
     \<lparr>to_string = plain_to_string,
      str_timestamp = (\<lambda>t. str_date t @ '' 00:00:00''),
      to_datetime = (\<lambda>s. None),
      to_datetime_dayfirst = plain_dayfirst,
      set_order = (\<lambda>xs. xs),
      sort_values_desc = (\<lambda>xs. xs),
      int_max_str_digits = 4300,
      series_sum = (\<lambda>xs. Finite (sum_list xs)),
      groupby_sum = (\<lambda>xs. Finite (sum_list xs)),
      series_mean = plain_mean\<rparr>"

definition all_columns :: "string list" where
  "all_columns = [''Date'', ''Category'', ''Amount'', ''Note'']"

definition day :: "nat \<Rightarrow> nat \<Rightarrow> nat \<Rightarrow> timestamp" where
  "day y m d = \<lparr>ts_year = y, ts_month = m, ts_day = d, ts_time = 0\<rparr>"

definition expense :: "timestamp option \<Rightarrow> string \<Rightarrow> rat \<Rightarrow> row" where
  "expense d c a = \<lparr>Date = d, Category = Some c, Amount = Some a, Note = Some ''''\<rparr>"

definition food_travel :: dataframe where
  "food_travel = \<lparr>columns = all_columns,
     rows = [expense (Some (day 2025 8 1)) ''Food'' 100,
             expense (Some (day 2025 8 2)) ''Travel'' 150]\<rparr>"

definition no_rows :: dataframe where
  "no_rows = \<lparr>columns = all_columns, rows = []\<rparr>"

text \<open>Installations: no key configured; a key and a model that replies; a key and a
  request that fails; a key without the \<^verbatim>\<open>openai\<close> package.\<close>

definition offline :: services where
  "offline = \<lparr>load_data = Inr (Some food_travel), openai_api_key = None,
     import_openai = None, openai_client = None, chat_completion = (\<lambda>q c. Inr '''')\<rparr>"

definition online :: "dataframe \<Rightarrow> string \<Rightarrow> services" where
  "online df reply = \<lparr>load_data = Inr (Some df), openai_api_key = Some ''sk-test'',
     import_openai = None, openai_client = None, chat_completion = (\<lambda>q c. Inr reply)\<rparr>"

definition failing :: services where
  "failing = \<lparr>load_data = Inr (Some no_rows), openai_api_key = Some ''sk-test'',
     import_openai = None, openai_client = None,
     chat_completion = (\<lambda>q c. Inl (Exception ''Connection error.''))\<rparr>"

definition not_installed :: services where
  "not_installed = \<lparr>load_data = Inr (Some food_travel), openai_api_key = Some ''sk-test'',
     import_openai = Some (ImportError (''No module named 'openai'' @ [CHR 0x27])),
     openai_client = None,
     chat_completion = (\<lambda>q c. Inr '''')\<rparr>"

text \<open>The query \<^verbatim>\<open>total spent\<close> with a no-break space (U+00A0) before it and an
  ideographic space (U+3000) after it.\<close>

definition padded_query :: string where
  "padded_query = [CHR 0xC2, CHR 0xA0] @ ''total spent'' @ [CHR 0xE3, CHR 0x80, CHR 0x80]"

section \<open>Notions of the specification\<close>

text \<open>The specification speaks of the first row with the greatest (least) amount and of
  the chronologically latest rows. Position \<open>i\<close> holds the first greatest value of a
  list when no value is greater and no earlier position holds the same value.\<close>

definition first_greatest_at :: "rat list \<Rightarrow> nat \<Rightarrow> bool" where
  "first_greatest_at xs i =
     (i < length xs \<and> (\<forall>j<length xs. xs ! j \<le> xs ! i) \<and> (\<forall>j<i. xs ! j \<noteq> xs ! i))"

definition first_least_at :: "rat list \<Rightarrow> nat \<Rightarrow> bool" where
  "first_least_at xs i =
     (i < length xs \<and> (\<forall>j<length xs. xs ! i \<le> xs ! j) \<and> (\<forall>j<i. xs ! j \<noteq> xs ! i))"




section \<open>More sample data\<close>

definition ties :: dataframe where
  "ties = \<lparr>columns = all_columns,
     rows = [expense (Some (day 2025 8 1)) ''Food'' 50,
             expense (Some (day 2025 8 2)) ''Travel'' 200,
             expense (Some (day 2025 8 3)) ''Bills'' 50,
             expense (Some (day 2025 8 4)) ''Rent'' 200]\<rparr>"

text \<open>A frame as \<^verbatim>\<open>load_data\<close> leaves it when one date of the file did not parse:
  \<^verbatim>\<open>sort_values('Date')\<close> puts the row without a date last.\<close>

definition one_undated :: dataframe where
  "one_undated = \<lparr>columns = all_columns,
     rows = [expense (Some (day 2025 1 1)) ''Food'' 10,
             expense (Some (day 2025 1 2)) ''Travel'' 20,
             expense (Some (day 2025 1 3)) ''Bills'' 30,
             expense None ''Rent'' 40]\<rparr>"

definition all_undated :: dataframe where
  "all_undated = \<lparr>columns = all_columns, rows = [expense None ''Rent'' 40]\<rparr>"

text \<open>A frame with the amounts \<open>1/8\<close> and \<open>2\<^sup>-\<^sup>6\<^sup>0\<close>, and a library that sums them
  as \<^verbatim>\<open>float64\<close> does: the smaller amount is less than half a unit in the last place
  of the greater, \<open>2\<^sup>-\<^sup>5\<^sup>6\<close>, so the sum rounds to \<open>1/8\<close>.\<close>

definition tiny :: dataframe where
  "tiny = \<lparr>columns = all_columns,
     rows = [expense (Some (day 2025 8 1)) ''Food'' (1 / 8),
             expense (Some (day 2025 8 2)) ''Travel'' (1 / 2 ^ 60)]\<rparr>"

definition rounding_library :: library where
  "rounding_library =
     plain_library\<lparr>series_sum :=
       (\<lambda>xs. if xs = [1 / 8, 1 / 2 ^ 60] then Finite (1 / 8) else Finite (sum_list xs))\<rparr>"

text \<open>A text ends in exactly two decimal places when its last three characters are a
  point and two digits and there is no other point before them.\<close>

definition two_decimals :: "string \<Rightarrow> bool" where
  "two_decimals s =
     (case rev s of
        b # a # p # whole \<Rightarrow> is_digit a \<and> is_digit b \<and> p = CHR ''.'' \<and> CHR ''.'' \<notin> set whole
      | _ \<Rightarrow> False)"

section \<open>Evaluation lemmas\<close>

lemmas char_defs = is_space_char_def white_space_def utf8_len_def is_digit_def is_upper_def
  is_lower_def is_alpha_def lower_char_def upper_char_def

lemmas rx_defs = re_search_def lit_def rx_last_n_def rx_compare_def rx_month_year_def
  rx_monthly_def rx_spend_in_def rx_iso_date_def rx_between_def rx_summarize_def

lemmas text_defs = char_defs char_of_def bit_0 digit_char_def lower_def title_def strip_def
  fmt2_def fmt2_float_def round_half_even_def show_nat.simps str_cell_def str_date_def
  pad_left_def match_group_def

lemmas frame_defs = df_empty_def has_column_def all_columns_def expense_def day_def
  fillna0_def sum_amount_def filled_amounts_def tail_def preview_cols_def dated_def

lemmas plain_defs = plain_library_def plain_to_string_def plain_row_def plain_cell_date_def

text \<open>A string of ASCII characters has one code point a byte.\<close>

lemma chars_ascii: "\<forall>c\<in>set s. (of_char c :: nat) < 0xC0 \<Longrightarrow> chars s = map (\<lambda>c. [c]) s"
  by (induction s) (simp_all add: utf8_len_def)

lemma chars_nonempty: "[] \<notin> set (chars s)"
  by (induction s rule: chars.induct) simp_all

lemma concat_chars: "concat (chars s) = s"
  by (induction s rule: chars.induct) simp_all

lemma strip_empty_iff: "strip s = [] \<longleftrightarrow> list_all is_space_char (chars s)"
proof
  assume e: "strip s = []"
  have sub: "set (dropWhile is_space_char (rev (dropWhile is_space_char (chars s))))
      \<subseteq> set (chars s)"
  proof
    fix w
    assume "w \<in> set (dropWhile is_space_char (rev (dropWhile is_space_char (chars s))))"
    then have "w \<in> set (rev (dropWhile is_space_char (chars s)))"
      by (rule set_dropWhileD)
    then have "w \<in> set (dropWhile is_space_char (chars s))"
      by simp
    then show "w \<in> set (chars s)"
      by (rule set_dropWhileD)
  qed
  have "\<forall>w\<in>set (dropWhile is_space_char (rev (dropWhile is_space_char (chars s)))). w = []"
    using e by (simp add: strip_def)
  then have "dropWhile is_space_char (rev (dropWhile is_space_char (chars s))) = []"
    using sub chars_nonempty [of s]
    by (cases "dropWhile is_space_char (rev (dropWhile is_space_char (chars s)))") auto
  then have "\<forall>w\<in>set (dropWhile is_space_char (chars s)). is_space_char w"
    by simp
  then have "dropWhile is_space_char (chars s) = []"
    using hd_dropWhile [of is_space_char "chars s"]
    by (cases "dropWhile is_space_char (chars s)") auto
  then show "list_all is_space_char (chars s)"
    by (simp add: list_all_iff)
next
  assume "list_all is_space_char (chars s)"
  then have d: "dropWhile is_space_char (chars s) = []"
    by (simp add: list_all_iff)
  show "strip s = []"
    unfolding strip_def d by simp
qed

text \<open>On a frame with rows and an \<^verbatim>\<open>Amount\<close> column the body is the first answer of
  the rules in their order.\<close>

lemma body_rules:
  assumes "\<not> df_empty df" and "has_column df ''Amount''"
  shows "rule_based_body lib query (Inr (Some df))
     = first_answer
         [rule_total lib (lower query) df,
          rule_last_n lib (lower query) df,
          rule_show_last_5 lib (lower query) df,
          rule_largest lib (lower query) df,
          rule_smallest lib (lower query) df,
          rule_average lib (lower query) df,
          rule_category lib (lower query) df,
          rule_compare lib (lower query) df,
          rule_monthly lib (lower query) df,
          rule_spend_in lib (lower query) df,
          rule_between lib (lower query) df,
          rule_summarize lib (lower query) df,
          rule_top lib (lower query) df]"
  using assms by (simp add: rule_based_body_def Let_def)

lemma food_travel_ok: "\<not> df_empty food_travel" "has_column food_travel ''Amount''"
  by (simp_all add: food_travel_def frame_defs)

lemma ties_ok: "\<not> df_empty ties" "has_column ties ''Amount''"
  by (simp_all add: ties_def frame_defs)

section \<open>The empty dataset\<close>

text \<open>C2. Whatever the query, when \<^verbatim>\<open>load_data()\<close> returns \<^verbatim>\<open>None\<close> or an empty
  frame the resolver returns its fixed message; no rule is reached and nothing is
  raised.\<close>

theorem empty_dataset_message:
  assumes "dfo = None \<or> (\<exists>df. dfo = Some df \<and> df_empty df)"
  shows "rule_based_answer lib query (Inr dfo)
           = ''No expense data available yet. Add some expenses first.''"
  using assms
  by (auto simp: rule_based_answer_def rule_based_body_def no_data_message_def)

text \<open>C2 at an empty frame and at \<^verbatim>\<open>None\<close>.\<close>

theorem empty_dataset_message_witness:
  "rule_based_answer plain_library ''total spent'' (Inr (Some no_rows))
     = ''No expense data available yet. Add some expenses first.''
   \<and> rule_based_answer plain_library ''top category'' (Inr None)
     = ''No expense data available yet. Add some expenses first.''"
proof -
  have e: "df_empty no_rows"
    by (simp add: df_empty_def no_rows_def)
  show ?thesis
    using empty_dataset_message [of "Some no_rows" plain_library "''total spent''"]
      empty_dataset_message [of None plain_library "''top category''"] e
    by simp
qed

section \<open>Blank input\<close>

text \<open>C10. For an input that is \<^verbatim>\<open>None\<close>, empty or made of white space only, the white
  space of Unicode that \<^verbatim>\<open>str.strip\<close> removes, \<^verbatim>\<open>handle_query\<close> returns the prompt
  for a question, and no call is made: the dataset is not loaded, the model is not
  asked, the resolver is not run.\<close>

theorem blank_input_prompt:
  assumes "user_input = None \<or> (\<exists>s. user_input = Some s \<and> list_all is_space_char (chars s))"
  shows "handle_query lib sv user_input = (''Please enter a question.'', [])"
proof -
  have "strip (case user_input of None \<Rightarrow> '''' | Some s \<Rightarrow> s) = []"
    using assms by (auto simp: strip_empty_iff)
  then show ?thesis
    by (simp add: handle_query_def)
qed

text \<open>C10 at a string of a blank, a tab, a line feed and a unit separator, at a string
  of a no-break space (U+00A0), an ideographic space (U+3000), a line separator (U+2028)
  and a next line (U+0085), at the empty string and at \<^verbatim>\<open>None\<close>.\<close>

theorem blank_input_prompt_witness:
  "handle_query plain_library (online food_travel ''pong'')
       (Some [CHR '' '', CHR 0x09, CHR 0x0A, CHR 0x1F])
     = (''Please enter a question.'', [])
   \<and> handle_query plain_library (online food_travel ''pong'')
       (Some [CHR 0xC2, CHR 0xA0, CHR 0xE3, CHR 0x80, CHR 0x80, CHR 0xE2, CHR 0x80, CHR 0xA8,
              CHR 0xC2, CHR 0x85])
     = (''Please enter a question.'', [])
   \<and> handle_query plain_library (online food_travel ''pong'') (Some '''')
     = (''Please enter a question.'', [])
   \<and> handle_query plain_library (online food_travel ''pong'') None
     = (''Please enter a question.'', [])"
proof -
  have w: "list_all is_space_char (chars [CHR '' '', CHR 0x09, CHR 0x0A, CHR 0x1F])"
    by (simp add: char_defs)
  have u: "list_all is_space_char
      (chars [CHR 0xC2, CHR 0xA0, CHR 0xE3, CHR 0x80, CHR 0x80, CHR 0xE2, CHR 0x80, CHR 0xA8,
              CHR 0xC2, CHR 0x85])"
    by (simp add: char_defs)
  show ?thesis
    using blank_input_prompt [of "Some [CHR '' '', CHR 0x09, CHR 0x0A, CHR 0x1F]" plain_library
        "online food_travel ''pong''"]
      blank_input_prompt [of "Some [CHR 0xC2, CHR 0xA0, CHR 0xE3, CHR 0x80, CHR 0x80, CHR 0xE2,
        CHR 0x80, CHR 0xA8, CHR 0xC2, CHR 0x85]" plain_library "online food_travel ''pong''"]
      blank_input_prompt [of "Some ''''" plain_library "online food_travel ''pong''"]
      blank_input_prompt [of None plain_library "online food_travel ''pong''"] w u
    by simp
qed

section \<open>The total\<close>

lemma digit_char_is_digit: "d < 10 \<Longrightarrow> is_digit (digit_char d)"
  by (simp add: is_digit_def digit_char_def)

lemma show_nat_digits: "c \<in> set (show_nat n) \<Longrightarrow> is_digit c"
proof (induction n rule: show_nat.induct)
  case (1 n)
  show ?case
  proof (cases "n < 10")
    case True
    then show ?thesis
      using "1.prems" by (simp add: show_nat.simps [of n] digit_char_is_digit)
  next
    case False
    then show ?thesis
      using "1.prems" "1.IH" by (auto simp: show_nat.simps [of n] digit_char_is_digit)
  qed
qed

lemma point_no_digit: "\<not> is_digit CHR ''.''" "\<not> is_digit CHR ''-''"
  by (simp_all add: is_digit_def)

lemma fmt2_two_decimals: "two_decimals (fmt2 x)"
proof -
  have "CHR ''.'' \<notin> set (show_nat n)" for n
    using show_nat_digits point_no_digit by blast
  then show ?thesis
    by (simp add: two_decimals_def fmt2_def Let_def digit_char_is_digit)
qed

lemma low_total: "lower ''total spent'' = ''total spent''"
  by (simp add: lower_def char_defs)

lemma round_tie: "round_half_even (25 / 2) = 12"
proof -
  have f: "\<lfloor>25 / 2 :: rat\<rfloor> = 12"
    by (rule floor_unique) simp_all
  show ?thesis
    by (simp add: round_half_even_def f)
qed

lemma round_above: "round_half_even (25 / 2 + 100 / 2 ^ 60) = 13"
proof -
  have f: "\<lfloor>25 / 2 + 100 / 2 ^ 60 :: rat\<rfloor> = 12"
    by (rule floor_unique) simp_all
  show ?thesis
    unfolding round_half_even_def f by simp
qed

lemma fmt2_eighth: "fmt2 (1 / 8) = ''0.12''"
proof -
  have a: "\<bar>1 / 8 :: rat\<bar> * 100 = 25 / 2"
    by simp
  show ?thesis
    unfolding fmt2_def a round_tie
    by (simp add: show_nat.simps digit_char_def char_of_def bit_0)
qed

lemma fmt2_eighth_more: "fmt2 (1 / 8 + 1 / 2 ^ 60) = ''0.13''"
proof -
  have a: "\<bar>1 / 8 + 1 / 2 ^ 60 :: rat\<bar> * 100 = 25 / 2 + 100 / 2 ^ 60"
    by simp
  show ?thesis
    unfolding fmt2_def a round_above
    by (simp add: show_nat.simps digit_char_def char_of_def bit_0)
qed

lemma tiny_ok: "\<not> df_empty tiny" "has_column tiny ''Amount''"
  by (simp_all add: tiny_def frame_defs)

text \<open>C3, amended. For every frame with rows and an \<^verbatim>\<open>Amount\<close> column the answer to
  \<^verbatim>\<open>total spent\<close> gives the \<^verbatim>\<open>float64\<close> sum that the library computes of the amounts,
  a missing amount counting as 0. When that sum is finite it is written with exactly two
  decimal places; and it is the decimal sum of the amounts when the additions of the
  library are exact.\<close>

theorem total_spent_sum:
  assumes "\<not> df_empty df" and "has_column df ''Amount''"
  shows "rule_based_answer lib ''total spent'' (Inr (Some df))
           = ''You've spent a total of '' @ rupee
               @ fmt2_f64 (series_sum lib (map (\<lambda>r. fillna0 (Amount r)) (rows df))) @ ''.''
       \<and> (\<forall>x. series_sum lib (map (\<lambda>r. fillna0 (Amount r)) (rows df)) = Finite x \<longrightarrow>
             rule_based_answer lib ''total spent'' (Inr (Some df))
               = ''You've spent a total of '' @ rupee @ fmt2 x @ ''.''
             \<and> two_decimals (fmt2 x))
       \<and> (series_sum lib (map (\<lambda>r. fillna0 (Amount r)) (rows df))
            = Finite (sum_list (map (\<lambda>r. fillna0 (Amount r)) (rows df))) \<longrightarrow>
             rule_based_answer lib ''total spent'' (Inr (Some df))
               = ''You've spent a total of '' @ rupee
                   @ fmt2 (sum_list (map (\<lambda>r. fillna0 (Amount r)) (rows df))) @ ''.'')"
proof -
  have r: "rows df \<noteq> []"
    using assms(1) by (simp add: df_empty_def)
  have a: "rule_based_answer lib ''total spent'' (Inr (Some df))
           = ''You've spent a total of '' @ rupee
               @ fmt2_f64 (series_sum lib (map (\<lambda>r. fillna0 (Amount r)) (rows df))) @ ''.''"
    using assms r
    by (simp add: rule_based_answer_def body_rules low_total rule_total_def sum_amount_def)
  show ?thesis
    unfolding a by (simp add: fmt2_two_decimals)
qed

text \<open>C3, amended, at the frame with Food 100 and Travel 150, whose sum is exact, and at
  a frame with the amounts \<open>1/8\<close> and \<open>2\<^sup>-\<^sup>6\<^sup>0\<close>, whose \<^verbatim>\<open>float64\<close> sum is \<open>1/8\<close>: the
  answer shows 0.12 where the decimal sum would show 0.13.\<close>

theorem total_spent_sum_witness:
  "rule_based_answer plain_library ''total spent'' (Inr (Some food_travel))
     = ''You've spent a total of '' @ rupee @ ''250.00.''
   \<and> two_decimals ''250.00''
   \<and> rule_based_answer rounding_library ''total spent'' (Inr (Some tiny))
     = ''You've spent a total of '' @ rupee @ ''0.12.''
   \<and> fmt2 (sum_list (map (\<lambda>r. fillna0 (Amount r)) (rows tiny))) = ''0.13''"
proof -
  have s: "series_sum plain_library (map (\<lambda>r. fillna0 (Amount r)) (rows food_travel))
      = Finite 250"
    by (simp add: food_travel_def frame_defs plain_library_def)
  have f: "fmt2 250 = ''250.00''"
    by (simp add: text_defs)
  have t: "series_sum rounding_library (map (\<lambda>r. fillna0 (Amount r)) (rows tiny))
      = Finite (1 / 8)"
    by (simp add: tiny_def frame_defs rounding_library_def)
  have g: "fmt2 (1 / 8) = ''0.12''"
    by (rule fmt2_eighth)
  have e: "sum_list (map (\<lambda>r. fillna0 (Amount r)) (rows tiny)) = 1 / 8 + 1 / 2 ^ 60"
    by (simp add: tiny_def frame_defs)
  have h: "fmt2 (sum_list (map (\<lambda>r. fillna0 (Amount r)) (rows tiny))) = ''0.13''"
    unfolding e by (rule fmt2_eighth_more)
  show ?thesis
    using total_spent_sum [OF food_travel_ok, of plain_library]
      total_spent_sum [OF tiny_ok, of rounding_library] s f t g h
    by simp
qed

text \<open>C3 as stated fails at the frame without rows: the answer is the message for an
  empty dataset, not a total of 0.00.\<close>

theorem total_spent_empty_counterexample:
  "rule_based_answer plain_library ''total spent'' (Inr (Some no_rows))
     = ''No expense data available yet. Add some expenses first.''
   \<and> rule_based_answer plain_library ''total spent'' (Inr (Some no_rows))
     \<noteq> ''You've spent a total of '' @ rupee
          @ fmt2 (sum_list (map (\<lambda>r. fillna0 (Amount r)) (rows no_rows))) @ ''.''"
  by (simp add: rule_based_answer_def rule_based_body_def no_rows_def df_empty_def
      no_data_message_def)

section \<open>The last expenses\<close>

lemma last_n_dispatch:
  assumes "\<not> df_empty df" and "has_column df ''Amount''"
    and "\<not> contains ''total spent'' (lower query)"
    and "\<not> contains ''how much did i spend'' (lower query)"
    and "\<not> contains ''total spend'' (lower query)"
    and "re_search rx_last_n (lower query) = Some [ds]" and "length ds \<le> 640"
  shows "rule_based_answer lib query (Inr (Some df))
     = to_string lib (preview_cols df) (tail (clamp_count (digits_value ds)) (rows df))"
  using assms
  by (simp add: rule_based_answer_def body_rules rule_total_def rule_last_n_def match_group_def
      py_int_def)

lemma q_last_3:
  "lower ''last 3 expenses'' = ''last 3 expenses''"
  "re_search rx_last_n ''last 3 expenses'' = Some [''3'']"
  "lower ''last 999 expenses'' = ''last 999 expenses''"
  "re_search rx_last_n ''last 999 expenses'' = Some [''999'']"
  "lower ''last 50 expenses'' = ''last 50 expenses''"
  "re_search rx_last_n ''last 50 expenses'' = Some [''50'']"
  by (simp_all add: lower_def rx_defs char_defs)

lemma clamp_values:
  "clamp_count (digits_value ''3'') = 3" "clamp_count (digits_value ''999'') = 50"
  "clamp_count (digits_value ''50'') = 50"
  by (simp_all add: clamp_count_def digits_value_def)



lemma one_undated_ok: "\<not> df_empty one_undated" "has_column one_undated ''Amount''"
  by (simp_all add: one_undated_def frame_defs)






section \<open>The largest and the smallest expense\<close>

lemma first_index_least:
  "i < length xs \<Longrightarrow> \<forall>j<i. xs ! j \<noteq> xs ! i \<Longrightarrow> first_index (xs ! i) xs = i"
proof (induction xs arbitrary: i)
  case Nil
  then show ?case by simp
next
  case (Cons x xs)
  show ?case
  proof (cases i)
    case 0
    then show ?thesis by simp
  next
    case (Suc k)
    have "x \<noteq> xs ! k"
      using Cons.prems(2) Suc by auto
    moreover have "\<forall>j<k. xs ! j \<noteq> xs ! k"
      using Cons.prems(2) Suc by auto
    moreover have "k < length xs"
      using Cons.prems(1) Suc by simp
    ultimately show ?thesis
      using Cons.IH [of k] Suc by simp
  qed
qed

lemma idxmax_first:
  assumes "first_greatest_at xs i"
  shows "idxmax xs = Inr i"
proof -
  obtain x ys where xs: "xs = x # ys"
    using assms by (cases xs) (auto simp: first_greatest_at_def)
  have "Max (set xs) = xs ! i"
  proof (rule Max_eqI)
    show "finite (set xs)" by simp
    show "\<And>y. y \<in> set xs \<Longrightarrow> y \<le> xs ! i"
      using assms by (auto simp: first_greatest_at_def in_set_conv_nth)
    show "xs ! i \<in> set xs"
      using assms by (simp add: first_greatest_at_def)
  qed
  then have m: "fold max ys x = xs ! i"
    using Max.set_eq_fold [of x ys] by (simp add: xs)
  have f: "first_index (xs ! i) xs = i"
    using assms by (intro first_index_least) (auto simp: first_greatest_at_def)
  have "idxmax xs = Inr (first_index (fold max ys x) xs)"
    by (simp add: idxmax_def xs)
  then show ?thesis
    by (simp only: m f)
qed

lemma idxmin_first:
  assumes "first_least_at xs i"
  shows "idxmin xs = Inr i"
proof -
  obtain x ys where xs: "xs = x # ys"
    using assms by (cases xs) (auto simp: first_least_at_def)
  have "Min (set xs) = xs ! i"
  proof (rule Min_eqI)
    show "finite (set xs)" by simp
    show "\<And>y. y \<in> set xs \<Longrightarrow> xs ! i \<le> y"
      using assms by (auto simp: first_least_at_def in_set_conv_nth)
    show "xs ! i \<in> set xs"
      using assms by (simp add: first_least_at_def)
  qed
  then have m: "fold min ys x = xs ! i"
    using Min.set_eq_fold [of x ys] by (simp add: xs)
  have f: "first_index (xs ! i) xs = i"
    using assms by (intro first_index_least) (auto simp: first_least_at_def)
  have "idxmin xs = Inr (first_index (fold min ys x) xs)"
    by (simp add: idxmin_def xs)
  then show ?thesis
    by (simp only: m f)
qed

lemma largest_dispatch:
  assumes "\<not> df_empty df" "has_column df ''Amount''"
  shows "rule_based_body lib ''largest expense'' (Inr (Some df))
     = (case idxmax (filled_amounts df) of Inl e \<Rightarrow> Inl e
        | Inr idx \<Rightarrow> Inr (extreme_text lib df ''Largest'' (rows df ! idx)))"
  using assms
  by (simp add: rule_based_body_def lower_def rule_total_def rule_last_n_def
      rule_show_last_5_def rule_largest_def rx_defs char_defs)

lemma smallest_dispatch:
  assumes "\<not> df_empty df" "has_column df ''Amount''"
  shows "rule_based_body lib ''smallest expense'' (Inr (Some df))
     = (case idxmin (filled_amounts df) of Inl e \<Rightarrow> Inl e
        | Inr idx \<Rightarrow> Inr (extreme_text lib df ''Smallest'' (rows df ! idx)))"
  using assms
  by (simp add: rule_based_body_def lower_def rule_total_def rule_last_n_def
      rule_show_last_5_def rule_largest_def rule_smallest_def rx_defs char_defs)

text \<open>C5. On a frame with rows and an \<^verbatim>\<open>Amount\<close> column, when position \<open>i\<close> is the
  first to hold the greatest amount (a missing amount counting as 0), the answer to
  \<^verbatim>\<open>largest expense\<close> describes row \<open>i\<close>, whatever rows after it share that amount;
  and likewise the answer to \<^verbatim>\<open>smallest expense\<close> describes the first row with the
  least amount.\<close>

theorem extreme_expense_first_occurrence:
  assumes "\<not> df_empty df" and "has_column df ''Amount''"
  shows "(first_greatest_at (filled_amounts df) i \<longrightarrow>
            rule_based_answer lib ''largest expense'' (Inr (Some df))
              = extreme_text lib df ''Largest'' (rows df ! i))
       \<and> (first_least_at (filled_amounts df) k \<longrightarrow>
            rule_based_answer lib ''smallest expense'' (Inr (Some df))
              = extreme_text lib df ''Smallest'' (rows df ! k))"
  using assms
  by (simp add: rule_based_answer_def largest_dispatch smallest_dispatch idxmax_first
      idxmin_first)

lemma ties_amounts: "filled_amounts ties = [50, 200, 50, 200]"
  by (simp add: filled_amounts_def ties_def expense_def fillna0_def)

text \<open>C5 at a frame with amounts 50, 200, 50, 200: the second row is the largest
  expense and the first row the smallest.\<close>

theorem extreme_expense_first_occurrence_witness:
  "first_greatest_at (filled_amounts ties) 1 \<and> first_least_at (filled_amounts ties) 0
   \<and> rule_based_answer plain_library ''largest expense'' (Inr (Some ties))
       = ''Largest expense: '' @ rupee @ ''200.00 on 2025-08-02 00:00:00 (Travel).''
   \<and> rule_based_answer plain_library ''smallest expense'' (Inr (Some ties))
       = ''Smallest expense: '' @ rupee @ ''50.00 on 2025-08-01 00:00:00 (Food).''"
proof -
  have g: "first_greatest_at (filled_amounts ties) 1"
    by (simp add: ties_amounts first_greatest_at_def less_Suc_eq all_conj_distrib numeral_nat)
  have l: "first_least_at (filled_amounts ties) 0"
    by (simp add: ties_amounts first_least_at_def less_Suc_eq all_conj_distrib numeral_nat)
  have t1: "extreme_text plain_library ties ''Largest'' (rows ties ! 1)
      = ''Largest expense: '' @ rupee @ ''200.00 on 2025-08-02 00:00:00 (Travel).''"
    by (simp add: extreme_text_def ties_def expense_def day_def plain_library_def
        row_date_def row_category_def row_note_def has_column_def all_columns_def
        str_cell_def strip_def fmt2_float_def fmt2_def round_half_even_def show_nat.simps
        digit_char_def char_of_def bit_0 str_date_def pad_left_def)
  have t0: "extreme_text plain_library ties ''Smallest'' (rows ties ! 0)
      = ''Smallest expense: '' @ rupee @ ''50.00 on 2025-08-01 00:00:00 (Food).''"
    by (simp add: extreme_text_def ties_def expense_def day_def plain_library_def
        row_date_def row_category_def row_note_def has_column_def all_columns_def
        str_cell_def strip_def fmt2_float_def fmt2_def round_half_even_def show_nat.simps
        digit_char_def char_of_def bit_0 str_date_def pad_left_def)
  show ?thesis
    using extreme_expense_first_occurrence [OF ties_ok, of 1 plain_library 0] g l t1 t0
    by simp
qed

section \<open>The monthly total\<close>

lemma show_2025: "show_nat 2025 = ''2025''"
  by (simp add: show_nat.simps digit_char_def char_of_def bit_0)

lemma in_month_dated: "filter (in_month y m) (dated rs) = filter (in_month y m) rs"
  by (induction rs) (auto simp: dated_def in_month_def)

lemma zero_text: "fmt2 0 = ''0.00''"
  by (simp add: text_defs)

lemma rule_category_none:
  assumes "\<not> has_column df ''Category'' \<or> (\<forall>cat\<in>set (known_cats lib df). \<not> contains cat low)"
  shows "rule_category lib low df = None"
proof (cases "has_column df ''Category''")
  case True
  then have "find (\<lambda>cat. contains cat low) (known_cats lib df) = None"
    using assms by (simp add: find_None_iff)
  then show ?thesis
    by (simp add: rule_category_def)
next
  case False
  then show ?thesis
    by (simp add: rule_category_def)
qed

lemma monthly_query:
  "lower ''monthly total for august 2025'' = ''monthly total for august 2025''"
  "re_search rx_monthly ''monthly total for august 2025'' = Some [''august'', ''2025'']"
  "re_search rx_spend_in ''monthly total for august 2025'' = None"
  "re_search rx_between ''monthly total for august 2025'' = None"
  "re_search rx_last_n ''monthly total for august 2025'' = None"
  "re_search rx_compare ''monthly total for august 2025'' = None"
  by (simp_all add: lower_def rx_defs char_defs)

text \<open>The rules before the monthly rule do not answer the query when no category label
  occurs in it.\<close>

lemma monthly_rules:
  assumes "\<not> df_empty df" and "has_column df ''Amount''"
    and "\<not> has_column df ''Category''
      \<or> (\<forall>cat\<in>set (known_cats lib df). \<not> contains cat ''monthly total for august 2025'')"
  shows "rule_based_body lib ''monthly total for august 2025'' (Inr (Some df))
     = first_answer
         [rule_monthly lib ''monthly total for august 2025'' df,
          rule_spend_in lib ''monthly total for august 2025'' df,
          rule_between lib ''monthly total for august 2025'' df,
          rule_summarize lib ''monthly total for august 2025'' df,
          rule_top lib ''monthly total for august 2025'' df]"
proof -
  have cat: "rule_category lib ''monthly total for august 2025'' df = None"
    by (rule rule_category_none [OF assms(3)])
  have t: "rule_total lib ''monthly total for august 2025'' df = None"
    by (simp add: rule_total_def)
  have l: "rule_last_n lib ''monthly total for august 2025'' df = None"
    by (simp add: rule_last_n_def monthly_query)
  have s: "rule_show_last_5 lib ''monthly total for august 2025'' df = None"
    by (simp add: rule_show_last_5_def)
  have e: "rule_largest lib ''monthly total for august 2025'' df = None"
      "rule_smallest lib ''monthly total for august 2025'' df = None"
      "rule_average lib ''monthly total for august 2025'' df = None"
    by (simp_all add: rule_largest_def rule_smallest_def rule_average_def)
  have c: "rule_compare lib ''monthly total for august 2025'' df = None"
    by (simp add: rule_compare_def monthly_query)
  show ?thesis
    using assms(1,2) by (simp add: body_rules monthly_query cat t l s e c)
qed

lemma monthly_later_rules:
  "rule_spend_in lib ''monthly total for august 2025'' df = None"
  "rule_between lib ''monthly total for august 2025'' df = None"
  "rule_summarize lib ''monthly total for august 2025'' df = None"
  "rule_top lib ''monthly total for august 2025'' df = None"
proof -
  show "rule_spend_in lib ''monthly total for august 2025'' df = None"
    by (simp add: rule_spend_in_def rule_month_def monthly_query)
  show "rule_between lib ''monthly total for august 2025'' df = None"
    by (simp add: rule_between_def monthly_query)
  show "rule_summarize lib ''monthly total for august 2025'' df = None"
    by (simp add: rule_summarize_def)
  show "rule_top lib ''monthly total for august 2025'' df = None"
    by (simp add: rule_top_def)
qed

lemma monthly_dispatch:
  assumes "\<not> df_empty df" and "has_column df ''Amount''"
    and "\<not> has_column df ''Category''
      \<or> (\<forall>cat\<in>set (known_cats lib df). \<not> contains cat ''monthly total for august 2025'')"
    and "has_column df ''Date''" and "dated (rows df) \<noteq> []"
    and "to_datetime_dayfirst lib ''01 august 2025'' = Some t"
  shows "rule_based_body lib ''monthly total for august 2025'' (Inr (Some df))
     = Inr (''Total for August 2025: '' @ rupee
          @ fmt2_f64 (sum_amount lib (filter (in_month 2025 (ts_month t)) (rows df))) @ ''.'')"
proof -
  have y: "py_int n ''2025'' = Inr 2025" for n
    by (simp add: py_int_def digits_value_def)
  have u: "title ''august'' = ''August''"
    by (simp add: text_defs)
  have mon: "rule_monthly lib ''monthly total for august 2025'' df
     = Some (Inr (''Total for August 2025: '' @ rupee
          @ fmt2_f64 (sum_amount lib (filter (in_month 2025 (ts_month t)) (rows df))) @ ''.''))"
    using assms(4,5,6)
    by (simp add: rule_monthly_def rule_month_def monthly_query match_group_def y month_total_def
        show_2025 u in_month_dated)
  show ?thesis
    by (simp add: monthly_rules [OF assms(1-3)] mon)
qed

text \<open>Without a \<^verbatim>\<open>Date\<close> column, without a parsed date, or when pandas does not read
  the month, the monthly rule gives no answer, and no later rule does.\<close>

lemma monthly_skipped:
  assumes "\<not> df_empty df" and "has_column df ''Amount''"
    and "\<not> has_column df ''Category''
      \<or> (\<forall>cat\<in>set (known_cats lib df). \<not> contains cat ''monthly total for august 2025'')"
    and "\<not> has_column df ''Date'' \<or> dated (rows df) = []
      \<or> to_datetime_dayfirst lib ''01 august 2025'' = None"
  shows "rule_based_body lib ''monthly total for august 2025'' (Inr (Some df))
     = Inr fallback_message"
proof -
  have y: "py_int n ''2025'' = Inr 2025" for n
    by (simp add: py_int_def digits_value_def)
  have mon: "rule_monthly lib ''monthly total for august 2025'' df = None"
    using assms(4)
    by (auto simp: rule_monthly_def rule_month_def monthly_query match_group_def y
        month_total_def show_2025)
  show ?thesis
    by (simp add: monthly_rules [OF assms(1-3)] mon monthly_later_rules)
qed

text \<open>C6, amended. On a frame with rows and an \<^verbatim>\<open>Amount\<close> column, none of whose
  category labels occurs in the query: when the frame has a \<^verbatim>\<open>Date\<close> column and a row
  with a parsed date, and pandas reads \<^verbatim>\<open>01 august 2025\<close> as a day of August, the
  answer to \<^verbatim>\<open>monthly total for august 2025\<close> is the \<^verbatim>\<open>float64\<close> sum that the library
  computes of the amounts of exactly the rows whose parsed date is in August 2025; it
  is a total of 0.00 when no row matches, and the decimal sum of those amounts when the
  additions of the library are exact. When the frame has no \<^verbatim>\<open>Date\<close> column or no
  parsed date, or pandas does not read the month, the rule is passed over and the
  answer is the fallback message.\<close>

theorem monthly_total_august_2025:
  assumes "\<not> df_empty df" and "has_column df ''Amount''"
    and "\<not> has_column df ''Category''
      \<or> (\<forall>cat\<in>set (known_cats lib df). \<not> contains cat ''monthly total for august 2025'')"
  shows "(has_column df ''Date'' \<and> dated (rows df) \<noteq> []
          \<and> map_option ts_month (to_datetime_dayfirst lib ''01 august 2025'') = Some 8 \<longrightarrow>
            rule_based_answer lib ''monthly total for august 2025'' (Inr (Some df))
              = ''Total for August 2025: '' @ rupee
                  @ fmt2_f64 (sum_amount lib (filter (in_month 2025 8) (rows df))) @ ''.''
            \<and> (filter (in_month 2025 8) (rows df) = [] \<longrightarrow>
                 rule_based_answer lib ''monthly total for august 2025'' (Inr (Some df))
                   = ''Total for August 2025: '' @ rupee @ ''0.00.'')
            \<and> (series_sum lib (map (\<lambda>r. fillna0 (Amount r)) (filter (in_month 2025 8) (rows df)))
                 = Finite (sum_list
                     (map (\<lambda>r. fillna0 (Amount r)) (filter (in_month 2025 8) (rows df)))) \<longrightarrow>
                 rule_based_answer lib ''monthly total for august 2025'' (Inr (Some df))
                   = ''Total for August 2025: '' @ rupee
                       @ fmt2 (sum_list
                           (map (\<lambda>r. fillna0 (Amount r)) (filter (in_month 2025 8) (rows df))))
                       @ ''.''))
       \<and> (\<not> has_column df ''Date'' \<or> dated (rows df) = []
          \<or> to_datetime_dayfirst lib ''01 august 2025'' = None \<longrightarrow>
            rule_based_answer lib ''monthly total for august 2025'' (Inr (Some df))
              = fallback_message)"
proof -
  have a: "rule_based_answer lib ''monthly total for august 2025'' (Inr (Some df))
           = ''Total for August 2025: '' @ rupee
               @ fmt2_f64 (sum_amount lib (filter (in_month 2025 8) (rows df))) @ ''.''"
    if h: "has_column df ''Date''" "dated (rows df) \<noteq> []"
      "map_option ts_month (to_datetime_dayfirst lib ''01 august 2025'') = Some 8"
  proof -
    obtain t where t: "to_datetime_dayfirst lib ''01 august 2025'' = Some t" "ts_month t = 8"
      using h(3) by auto
    show ?thesis
      using monthly_dispatch [OF assms h(1,2) t(1)] t(2) by (simp add: rule_based_answer_def)
  qed
  have b: "rule_based_answer lib ''monthly total for august 2025'' (Inr (Some df))
      = fallback_message"
    if "\<not> has_column df ''Date'' \<or> dated (rows df) = []
      \<or> to_datetime_dayfirst lib ''01 august 2025'' = None"
    using monthly_skipped [OF assms that] by (simp add: rule_based_answer_def)
  have c: "fmt2_f64 (sum_amount lib []) = ''0.00''"
    by (simp add: sum_amount_def zero_text)
  have d: "fmt2_f64 (sum_amount lib rs) = fmt2 (sum_list (map (\<lambda>r. fillna0 (Amount r)) rs))"
    if "series_sum lib (map (\<lambda>r. fillna0 (Amount r)) rs)
      = Finite (sum_list (map (\<lambda>r. fillna0 (Amount r)) rs))" for rs
    using that by (simp add: sum_amount_def)
  show ?thesis
    using a b c d by simp
qed

lemma plain_august: "to_datetime_dayfirst plain_library ''01 august 2025'' = Some (day 2025 8 1)"
  by (simp add: plain_library_def plain_dayfirst_def lit_def char_defs match_group_def lower_def
      month_table_def digits_value_def day_def)

lemma known_plain:
  "known_cats plain_library food_travel = [''food'', ''travel'']"
  "known_cats plain_library one_undated = [''food'', ''travel'', ''bills'', ''rent'']"
  "known_cats plain_library all_undated = [''rent'']"
  by (simp_all add: known_cats_def food_travel_def one_undated_def all_undated_def frame_defs
      List.map_filter_def text_defs plain_library_def)

lemma all_undated_ok: "\<not> df_empty all_undated" "has_column all_undated ''Amount''"
  by (simp_all add: all_undated_def frame_defs)

text \<open>C6, amended, at a frame with two rows of August 2025, at a frame whose dated rows
  are all of January 2025, and at a frame without a parsed date.\<close>

theorem monthly_total_august_2025_witness:
  "rule_based_answer plain_library ''monthly total for august 2025'' (Inr (Some food_travel))
     = ''Total for August 2025: '' @ rupee @ ''250.00.''
   \<and> filter (in_month 2025 8) (rows one_undated) = []
   \<and> rule_based_answer plain_library ''monthly total for august 2025'' (Inr (Some one_undated))
     = ''Total for August 2025: '' @ rupee @ ''0.00.''
   \<and> dated (rows all_undated) = []
   \<and> rule_based_answer plain_library ''monthly total for august 2025'' (Inr (Some all_undated))
     = fallback_message"
proof -
  have f: "\<not> has_column food_travel ''Category''
      \<or> (\<forall>cat\<in>set (known_cats plain_library food_travel).
         \<not> contains cat ''monthly total for august 2025'')"
      "has_column food_travel ''Date''" "dated (rows food_travel) \<noteq> []"
    by (simp_all add: known_plain) (simp_all add: food_travel_def frame_defs)
  have u: "\<not> has_column one_undated ''Category''
      \<or> (\<forall>cat\<in>set (known_cats plain_library one_undated).
         \<not> contains cat ''monthly total for august 2025'')"
      "has_column one_undated ''Date''" "dated (rows one_undated) \<noteq> []"
    by (simp_all add: known_plain) (simp_all add: one_undated_def frame_defs)
  have v: "\<not> has_column all_undated ''Category''
      \<or> (\<forall>cat\<in>set (known_cats plain_library all_undated).
         \<not> contains cat ''monthly total for august 2025'')"
      "dated (rows all_undated) = []"
    by (simp_all add: known_plain) (simp_all add: all_undated_def frame_defs)
  have m: "map_option ts_month (to_datetime_dayfirst plain_library ''01 august 2025'') = Some 8"
    by (simp add: plain_august day_def)
  have s: "fmt2_f64 (sum_amount plain_library (filter (in_month 2025 8) (rows food_travel)))
      = ''250.00''"
    by (simp add: food_travel_def in_month_def frame_defs text_defs plain_library_def)
  have n: "filter (in_month 2025 8) (rows one_undated) = []"
    by (simp add: one_undated_def in_month_def frame_defs)
  have z: "fmt2_f64 (sum_amount plain_library []) = ''0.00''"
    by (simp add: sum_amount_def zero_text)
  show ?thesis
    using monthly_total_august_2025 [OF food_travel_ok f(1)]
      monthly_total_august_2025 [OF one_undated_ok u(1)]
      monthly_total_august_2025 [OF all_undated_ok v(1)] f(2,3) u(2,3) v(2) m s n z
    by simp
qed

text \<open>C6 as stated fails at a frame whose only row has no parsed date: no row matches
  August 2025, and the answer is the fallback message, not a total of 0.00.\<close>

theorem monthly_total_undated_counterexample:
  "filter (in_month 2025 8) (rows all_undated) = []
   \<and> rule_based_answer plain_library ''monthly total for august 2025'' (Inr (Some all_undated))
       = fallback_message
   \<and> rule_based_answer plain_library ''monthly total for august 2025'' (Inr (Some all_undated))
       \<noteq> ''Total for August 2025: '' @ rupee @ ''0.00.''"
proof -
  have v: "\<not> has_column all_undated ''Category''
      \<or> (\<forall>cat\<in>set (known_cats plain_library all_undated).
         \<not> contains cat ''monthly total for august 2025'')"
      "dated (rows all_undated) = []"
    by (simp_all add: known_plain) (simp_all add: all_undated_def frame_defs)
  have a: "rule_based_answer plain_library ''monthly total for august 2025''
      (Inr (Some all_undated)) = fallback_message"
    using monthly_skipped [OF all_undated_ok v(1)] v(2) by (simp add: rule_based_answer_def)
  have "fallback_message \<noteq> ''Total for August 2025: '' @ rupee @ ''0.00.''"
    by (simp add: fallback_message_def)
  then show ?thesis
    using a by (simp add: all_undated_def in_month_def frame_defs)
qed

section \<open>Rules that an earlier rule shadows\<close>

lemma compare_query_rules:
  assumes "\<not> df_empty df" and "has_column df ''Amount''"
  shows "rule_based_body lib ''compare food vs travel'' (Inr (Some df))
     = first_answer
         [rule_category lib ''compare food vs travel'' df,
          rule_compare lib ''compare food vs travel'' df,
          rule_monthly lib ''compare food vs travel'' df,
          rule_spend_in lib ''compare food vs travel'' df,
          rule_between lib ''compare food vs travel'' df,
          rule_summarize lib ''compare food vs travel'' df,
          rule_top lib ''compare food vs travel'' df]"
proof -
  have low: "lower ''compare food vs travel'' = ''compare food vs travel''"
    by (simp add: lower_def char_defs)
  show ?thesis
    using assms
    by (simp add: body_rules low rule_total_def rule_last_n_def rule_show_last_5_def
        rule_largest_def rule_smallest_def rule_average_def rx_defs char_defs)
qed

text \<open>C1. On the frame with Food 100 and Travel 150 the query
  \<^verbatim>\<open>compare food vs travel\<close> is answered by the category rule, which comes first and
  finds a category label in the query: the answer is the total of food, or that of
  travel when the set of labels is iterated the other way round. The compare rule, tried
  alone, would give the comparison; it is never reached.\<close>

theorem compare_shadowed_by_category:
  "rule_based_answer plain_library ''compare food vs travel'' (Inr (Some food_travel))
     = ''You spent '' @ rupee @ ''100.00 on food.''
   \<and> rule_based_answer (plain_library\<lparr>set_order := rev\<rparr>) ''compare food vs travel''
        (Inr (Some food_travel))
     = ''You spent '' @ rupee @ ''150.00 on travel.''
   \<and> rule_compare plain_library ''compare food vs travel'' food_travel
     = Some (Inr (''Food: '' @ rupee @ ''100.00 vs Travel: '' @ rupee @ ''150.00 '' @ arrow
          @ '' Higher: Travel.''))
   \<and> ''You spent '' @ rupee @ ''100.00 on food.''
       \<noteq> ''Food: '' @ rupee @ ''100.00 vs Travel: '' @ rupee @ ''150.00 '' @ arrow
          @ '' Higher: Travel.''
   \<and> ''You spent '' @ rupee @ ''150.00 on travel.''
       \<noteq> ''Food: '' @ rupee @ ''100.00 vs Travel: '' @ rupee @ ''150.00 '' @ arrow
          @ '' Higher: Travel.''"
proof -
  have k: "known_cats lib food_travel = set_order lib [''food'', ''travel'']" for lib
    by (simp add: known_cats_def food_travel_def frame_defs List.map_filter_def text_defs)
  have a: "rule_category plain_library ''compare food vs travel'' food_travel
      = Some (Inr (''You spent '' @ rupee @ ''100.00 on food.''))"
    by (simp add: rule_category_def k food_travel_ok)
       (simp add: food_travel_def frame_defs text_defs plain_defs)
  have b: "rule_category (plain_library\<lparr>set_order := rev\<rparr>) ''compare food vs travel''
        food_travel
      = Some (Inr (''You spent '' @ rupee @ ''150.00 on travel.''))"
    by (simp add: rule_category_def k food_travel_ok)
       (simp add: food_travel_def frame_defs text_defs plain_defs)
  have m: "re_search rx_compare ''compare food vs travel'' = Some [''food'', ''travel'']"
    by (simp add: rx_defs char_defs)
  have s: "strip ''food'' = ''food''" "strip ''travel'' = ''travel''"
    by (simp_all add: strip_def char_defs)
  have t: "title ''food'' = ''Food''" "title ''travel'' = ''Travel''"
    by (simp_all add: text_defs)
  have v: "sum_cat plain_library food_travel ''food'' = Finite 100"
      "sum_cat plain_library food_travel ''travel'' = Finite 150"
    by (simp_all add: sum_cat_def food_travel_def frame_defs text_defs plain_library_def)
  have f: "fmt2 100 = ''100.00''" "fmt2 150 = ''150.00''"
    by (simp_all add: text_defs)
  have h: "has_column food_travel ''Category''"
    by (simp add: food_travel_def frame_defs)
  have c: "rule_compare plain_library ''compare food vs travel'' food_travel
     = Some (Inr (''Food: '' @ rupee @ ''100.00 vs Travel: '' @ rupee @ ''150.00 '' @ arrow
          @ '' Higher: Travel.''))"
    by (simp add: rule_compare_def m match_group_def s t v f h)
  show ?thesis
    by (simp add: rule_based_answer_def compare_query_rules food_travel_ok a b c)
qed

lemma summarize_3_answer:
  assumes "\<not> df_empty df" and "has_column df ''Amount''"
  shows "rule_based_answer lib ''summarize last 3 expenses'' (Inr (Some df))
      = to_string lib (preview_cols df) (tail 3 (rows df))"
  using last_n_dispatch [OF assms, where query = "''summarize last 3 expenses''"
      and ds = "''3''" and lib = lib]
  by (simp add: lower_def rx_defs char_defs clamp_values)

text \<open>C7. The query \<^verbatim>\<open>summarize last 3 expenses\<close> matches the pattern of the
  last-expenses rule, which comes first: the answer is the table alone. The summarize
  rule, tried alone, would put the total of the three amounts before the table.\<close>

theorem summarize_shadowed_by_last_n:
  "rule_based_answer plain_library ''summarize last 3 expenses'' (Inr (Some ties))
     = to_string plain_library all_columns (tail 3 (rows ties))
   \<and> rule_summarize plain_library ''summarize last 3 expenses'' ties
     = Some (Inr (''Last 3 expenses (total '' @ rupee @ ''450.00):'' @ [CHR 0x0A]
          @ to_string plain_library all_columns (tail 3 (rows ties))))
   \<and> to_string plain_library all_columns (tail 3 (rows ties))
     \<noteq> ''Last 3 expenses (total '' @ rupee @ ''450.00):'' @ [CHR 0x0A]
          @ to_string plain_library all_columns (tail 3 (rows ties))"
proof -
  have p: "preview_cols ties = all_columns"
    by (simp add: ties_def frame_defs)
  have a: "rule_based_answer plain_library ''summarize last 3 expenses'' (Inr (Some ties))
     = to_string plain_library all_columns (tail 3 (rows ties))"
    using summarize_3_answer [OF ties_ok, of plain_library] by (simp add: p)
  have s: "re_search rx_summarize ''summarize last 3 expenses'' = Some [''3'']"
    by (simp add: rx_defs char_defs)
  have t: "fmt2_f64 (sum_amount plain_library (tail 3 (rows ties))) = ''450.00''"
    by (simp add: ties_def frame_defs text_defs plain_library_def)
  have n: "show_nat 3 = ''3''"
    by (simp add: text_defs)
  have b: "rule_summarize plain_library ''summarize last 3 expenses'' ties
     = Some (Inr (''Last 3 expenses (total '' @ rupee @ ''450.00):'' @ [CHR 0x0A]
          @ to_string plain_library all_columns (tail 3 (rows ties))))"
    by (simp add: rule_summarize_def s match_group_def py_int_def clamp_values summarize_text_def
        Let_def p t n ties_ok)
  show ?thesis
    using a b by simp
qed


subsection \<open>The count of the summarize rule\<close>

text \<open>Whether a pattern matches does not depend on the groups recorded so far; a match
  of a literal or of a repetition followed by \<open>r\<close> leaves a match of \<open>r\<close> further to
  the right; and \<^verbatim>\<open>re.search\<close> succeeds exactly when the pattern matches at some
  position.\<close>

lemma rx_match_none_indep:
  "(rx_match r s g gs = None) = (rx_match r s g' gs' = None)"
proof (induction r s g gs arbitrary: g' gs' rule: rx_match.induct)
  case (1 s g gs)
  show ?case by simp
next
  case (2 c r g gs)
  show ?case by simp
next
  case (3 c r x xs g gs)
  show ?case
    using "3.IH" [of g' gs'] by (cases "x = [c]") simp_all
next
  case (4 k r g gs)
  show ?case by simp
next
  case (5 k r x xs g gs)
  show ?case
    using "5.IH" [of g' gs'] by (cases "in_class k x") simp_all
next
  case (6 k r g gs)
  show ?case by simp
next
  case (8 r s g gs)
  show ?case
    using "8.IH" [of s gs'] by simp
next
  case (9 r s g gs)
  show ?case
    using "9.IH" [of g' "concat (take (length g' - length s) g') # gs'"] by simp
next
  case (7 k r x xs g gs)
  show ?case
  proof (cases "in_class k x")
    case True
    have a: "(rx_match (Many k # r) xs g gs = None) = (rx_match (Many k # r) xs g' gs' = None)"
      using "7.IH"(1) [OF True] .
    show ?thesis
    proof (cases "rx_match (Many k # r) xs g gs")
      case None
      then have n: "rx_match (Many k # r) xs g' gs' = None"
        using a by simp
      show ?thesis
        using True None n "7.IH"(2) [OF True None, of g' gs'] by simp
    next
      case (Some res)
      then obtain res' where "rx_match (Many k # r) xs g' gs' = Some res'"
        using a by (cases "rx_match (Many k # r) xs g' gs'") auto
      then show ?thesis
        using True Some by simp
    qed
  next
    case False
    then show ?thesis by simp
  qed
qed

lemma lit_match_prefix:
  "rx_match (lit p @ r) s g gs \<noteq> None
     \<Longrightarrow> \<exists>s'. s = map (\<lambda>c. [c]) p @ s' \<and> rx_match r s' g gs \<noteq> None"
proof (induction p arbitrary: s)
  case Nil
  then show ?case by (simp add: lit_def)
next
  case (Cons c p)
  then obtain x xs where s: "s = x # xs"
    by (cases s) (auto simp: lit_def)
  have "x = [c]" and "rx_match (lit p @ r) xs g gs \<noteq> None"
    using Cons.prems by (auto simp: s lit_def split: if_splits)
  then show ?case
    using Cons.IH [of xs] by (auto simp: s)
qed

lemma many_match_suffix:
  "rx_match (Many k # r) s g gs \<noteq> None \<Longrightarrow> \<exists>pre s'. s = pre @ s' \<and> rx_match r s' g gs \<noteq> None"
proof (induction s)
  case Nil
  then show ?case by simp
next
  case (Cons x xs)
  show ?case
  proof (cases "rx_match (Many k # r) xs g gs")
    case None
    then have "rx_match r xs g gs \<noteq> None"
      using Cons.prems by (auto split: if_splits)
    then show ?thesis
      by (metis append_Cons append_Nil)
  next
    case (Some res)
    then obtain pre s' where "xs = pre @ s'" and "rx_match r s' g gs \<noteq> None"
      using Cons.IH by auto
    then show ?thesis
      by (metis append_Cons)
  qed
qed

lemma search_finds_suffix:
  "rx_match r s' [] [] \<noteq> None \<Longrightarrow> rx_search r (pre @ s') \<noteq> None"
proof (induction pre)
  case Nil
  then show ?case by (cases s') (auto split: option.splits)
next
  case (Cons x pre)
  then show ?case by (auto split: option.splits)
qed

lemma search_gives_suffix:
  "rx_search r s \<noteq> None \<Longrightarrow> \<exists>pre s'. s = pre @ s' \<and> rx_match r s' [] [] \<noteq> None"
proof (induction s)
  case Nil
  then show ?case by simp
next
  case (Cons x xs)
  show ?case
  proof (cases "rx_match r (x # xs) [] []")
    case None
    then have "rx_search r xs \<noteq> None"
      using Cons.prems by simp
    then obtain pre s' where "xs = pre @ s'" and "rx_match r s' [] [] \<noteq> None"
      using Cons.IH by auto
    then show ?thesis
      by (metis append_Cons)
  next
    case (Some res)
    then show ?thesis
      by (metis append_Nil option.distinct(1))
  qed
qed

lemma summarize_pattern: "rx_summarize = lit ''summarize'' @ Many Space # rx_last_n"
  by (simp add: rx_summarize_def rx_last_n_def lit_def)

lemma summarize_match_is_last_n_match:
  assumes "rx_search rx_summarize s \<noteq> None"
  shows "rx_search rx_last_n s \<noteq> None"
proof -
  obtain pre s1 where s: "s = pre @ s1" and "rx_match rx_summarize s1 [] [] \<noteq> None"
    using search_gives_suffix [OF assms] by auto
  then have "rx_match (lit ''summarize'' @ Many Space # rx_last_n) s1 [] [] \<noteq> None"
    using summarize_pattern by metis
  then obtain s2 where s1: "s1 = map (\<lambda>c. [c]) ''summarize'' @ s2"
      and ms: "rx_match (Many Space # rx_last_n) s2 [] [] \<noteq> None"
    using lit_match_prefix [of "''summarize''" "Many Space # rx_last_n" s1 "[]" "[]"] by auto
  obtain mid s3 where s2: "s2 = mid @ s3" and m: "rx_match rx_last_n s3 [] [] \<noteq> None"
    using many_match_suffix [OF ms] by auto
  have "s = (pre @ map (\<lambda>c. [c]) ''summarize'' @ mid) @ s3"
    unfolding s s1 s2 by (simp only: append_assoc)
  then show ?thesis
    using search_finds_suffix [OF m, of "pre @ map (\<lambda>c. [c]) ''summarize'' @ mid"]
    by (simp only: not_False_eq_True)
qed

text \<open>Whatever the query, a count given to the summarize rule is never read: when the
  pattern of the summarize rule matches, the last-expenses rule has an answer, and it
  comes first.\<close>

lemma summarize_count_never_read:
  assumes "\<not> df_empty df" and "has_column df ''Amount''"
    and "re_search rx_summarize (lower query) \<noteq> None"
  shows "rule_last_n lib (lower query) df \<noteq> None"
    and "rule_based_body lib query (Inr (Some df))
      = first_answer [rule_total lib (lower query) df, rule_last_n lib (lower query) df]"
proof -
  show n: "rule_last_n lib (lower query) df \<noteq> None"
    using summarize_match_is_last_n_match [of "chars (lower query)"] assms(3)
    by (auto simp: rule_last_n_def re_search_def split: option.splits)
  show "rule_based_body lib query (Inr (Some df))
      = first_answer [rule_total lib (lower query) df, rule_last_n lib (lower query) df]"
    using n by (cases "rule_total lib (lower query) df") (auto simp: body_rules [OF assms(1,2)])
qed

section \<open>Exceptions\<close>

lemma many_digits_greedy:
  assumes "\<forall>c\<in>set ds. is_digit c" and "ds \<noteq> []"
    and "rx_match (Many Digit # r) rest g gs = None"
    and "rx_match r rest g gs = Some res"
  shows "rx_match (Many Digit # r) (map (\<lambda>c. [c]) ds @ rest) g gs = Some res"
  using assms(1,2)
proof (induction ds)
  case Nil
  then show ?case by simp
next
  case (Cons d ds)
  show ?case
  proof (cases "ds = []")
    case True
    then show ?thesis
      using Cons.prems assms(3,4) by simp
  next
    case False
    then have "rx_match (Many Digit # r) (map (\<lambda>c. [c]) ds @ rest) g gs = Some res"
      using Cons by simp
    then show ?thesis
      using Cons.prems by simp
  qed
qed

lemma contains_skips_digits:
  assumes "\<forall>c\<in>set ds. is_digit c" and "\<not> is_digit a"
  shows "contains (a # p) (ds @ rest) = contains (a # p) rest"
  using assms by (induction ds) auto

lemma digit_not_upper: "is_digit c \<Longrightarrow> \<not> is_upper c"
  by (simp add: is_digit_def is_upper_def Let_def)

lemma digit_not_space: "is_digit c \<Longrightarrow> \<not> is_space_char [c]"
  by (auto simp: is_digit_def is_space_char_def white_space_def)

lemma digit_ascii: "is_digit c \<Longrightarrow> (of_char c :: nat) < 0xC0"
  by (simp add: is_digit_def Let_def)

lemma concat_singletons: "concat (map (\<lambda>c. [c]) s) = s"
  by (induction s) simp_all

lemma lower_digits: "\<forall>c\<in>set ds. is_digit c \<Longrightarrow> lower ds = ds"
  by (induction ds) (auto simp: lower_def lower_char_def digit_not_upper)

lemma lower_append: "lower (a @ b) = lower a @ lower b"
  by (simp add: lower_def)

lemma last_n_long_match:
  assumes "\<forall>c\<in>set ds. is_digit c" and "ds \<noteq> []"
  shows "re_search rx_last_n (''last '' @ ds @ '' expenses'') = Some [ds]"
proof -
  define w where "w = map (\<lambda>c :: char. [c])"
  obtain d ds' where ds: "ds = d # ds'"
    using assms(2) by (cases ds) auto
  have nd: "\<not> is_space_char [d]"
    using assms(1) by (simp add: ds digit_not_space)
  have "\<forall>c\<in>set (''last '' @ ds @ '' expenses''). (of_char c :: nat) < 0xC0"
    using assms(1) by (auto simp: digit_ascii)
  then have c: "chars (''last '' @ ds @ '' expenses'') = w ''last '' @ w ds @ w '' expenses''"
    unfolding w_def by (simp only: chars_ascii map_append)
  let ?r = "GroupEnd # Many Space # lit ''expenses''"
  have t: "concat (take (length (w ds @ w '' expenses'') - length (w '' expenses''))
      (w ds @ w '' expenses'')) = ds"
    by (simp add: w_def concat_singletons)
  have a: "rx_match (Many Digit # ?r) (w '' expenses'') (w ds @ w '' expenses'') [] = None"
    by (simp add: w_def char_defs)
  have "rx_match (Many Space # lit ''expenses'') (w '' expenses'') (w ds @ w '' expenses'') [ds]
      = Some [ds]"
    by (simp add: w_def lit_def char_defs)
  then have b: "rx_match ?r (w '' expenses'') (w ds @ w '' expenses'') [] = Some [ds]"
    by (simp only: rx_match.simps t)
  have "rx_match (Many Digit # ?r) (w ds @ w '' expenses'') (w ds @ w '' expenses'') []
      = Some [ds]"
    unfolding w_def by (rule many_digits_greedy [OF assms a [unfolded w_def] b [unfolded w_def]])
  then have g: "rx_match (GroupStart # Many Digit # ?r) (w ds @ w '' expenses'') [] []
      = Some [ds]"
    by simp
  have "rx_match (Many Space # GroupStart # Many Digit # ?r) (w ds @ w '' expenses'') [] []
      = None"
    using nd by (simp add: ds w_def)
  then have "rx_match (Many Space # GroupStart # Many Digit # ?r)
      (w '' '' @ w ds @ w '' expenses'') [] [] = Some [ds]"
    using g by (simp add: w_def char_defs)
  then have "rx_match rx_last_n (w ''last '' @ w ds @ w '' expenses'') [] [] = Some [ds]"
    by (simp add: rx_last_n_def lit_def w_def)
  then have "rx_search rx_last_n (w ''last '' @ w ds @ w '' expenses'') = Some [ds]"
    by (simp add: w_def)
  then show ?thesis
    by (simp only: re_search_def c)
qed

lemma digit_facts: "\<not> is_digit CHR ''t''" "\<not> is_digit CHR ''h''"
  by (simp_all add: is_digit_def)

lemma long_count_raises:
  assumes "\<not> df_empty df" and "has_column df ''Amount''"
    and "\<forall>c\<in>set ds. is_digit c" and "640 < length ds"
    and "0 < int_max_str_digits lib" and "int_max_str_digits lib < length ds"
  shows "rule_based_body lib (''last '' @ ds @ '' expenses'') (Inr (Some df))
     = Inl (Exception (''Exceeds the limit ('' @ show_nat (int_max_str_digits lib)
         @ '' digits) for integer string conversion: value has '' @ show_nat (length ds)
         @ '' digits; use sys.set_int_max_str_digits() to increase the limit''))"
proof -
  define q where "q = ''last '' @ ds @ '' expenses''"
  have ne: "ds \<noteq> []"
    using assms(4) by auto
  have lp: "lower ''last '' = ''last ''" "lower '' expenses'' = '' expenses''"
    by (simp_all add: lower_def char_defs)
  have low: "lower q = q"
    unfolding q_def by (simp only: lower_append lp lower_digits [OF assms(3)])
  have c: "\<not> contains ''total spent'' q" "\<not> contains ''how much did i spend'' q"
      "\<not> contains ''total spend'' q"
    unfolding q_def by (simp_all add: contains_skips_digits [OF assms(3)] digit_facts)
  have m: "re_search rx_last_n q = Some [ds]"
    unfolding q_def by (rule last_n_long_match [OF assms(3) ne])
  have t: "rule_total lib q df = None"
    by (simp add: rule_total_def c)
  have n: "rule_last_n lib q df
     = Some (Inl (Exception (''Exceeds the limit ('' @ show_nat (int_max_str_digits lib)
         @ '' digits) for integer string conversion: value has '' @ show_nat (length ds)
         @ '' digits; use sys.set_int_max_str_digits() to increase the limit'')))"
    using assms(4-6) by (simp add: rule_last_n_def m match_group_def py_int_def)
  have "rule_based_body lib q (Inr (Some df))
     = Inl (Exception (''Exceeds the limit ('' @ show_nat (int_max_str_digits lib)
         @ '' digits) for integer string conversion: value has '' @ show_nat (length ds)
         @ '' digits; use sys.set_int_max_str_digits() to increase the limit''))"
    by (simp only: body_rules [OF assms(1,2)] low t n first_answer.simps)
  then show ?thesis
    unfolding q_def .
qed

lemma food_travel_total:
  "rule_based_body plain_library ''total spent'' (Inr (Some food_travel))
     = Inr (''You've spent a total of '' @ rupee @ ''250.00.'')"
proof -
  have "fmt2_f64 (sum_amount plain_library (rows food_travel)) = ''250.00''"
    by (simp add: food_travel_def frame_defs text_defs plain_library_def)
  then show ?thesis
    by (simp add: body_rules food_travel_ok low_total rule_total_def)
qed

text \<open>C8. The whole body of \<^verbatim>\<open>_rule_based_answer\<close>, the call of
  \<^verbatim>\<open>load_data\<close> included, is inside the \<^verbatim>\<open>try\<close>: when it raises, the resolver
  returns the text \<^verbatim>\<open>Error processing query: \<close> followed by the message of the
  exception, and otherwise the answer of the body. It returns a string in either
  case.\<close>

theorem exceptions_become_text:
  "(rule_based_body lib query load = Inl e
      \<longrightarrow> rule_based_answer lib query load = ''Error processing query: '' @ message e)
   \<and> (rule_based_body lib query load = Inr answer
      \<longrightarrow> rule_based_answer lib query load = answer)"
  by (simp add: rule_based_answer_def)

text \<open>C8 where \<^verbatim>\<open>load_data\<close> raises, where \<^verbatim>\<open>int\<close> refuses a count of 4301
  digits, and where nothing is raised.\<close>

theorem exceptions_become_text_witness:
  "rule_based_answer plain_library ''total spent'' (Inl (Exception ''['Date']''))
     = ''Error processing query: ['Date']''
   \<and> rule_based_answer plain_library (''last '' @ replicate 4301 CHR ''7'' @ '' expenses'')
        (Inr (Some food_travel))
     = ''Error processing query: Exceeds the limit (4300 digits) for integer string conversion: value has 4301 digits; use sys.set_int_max_str_digits() to increase the limit''
   \<and> rule_based_answer plain_library ''total spent'' (Inr (Some food_travel))
     = ''You've spent a total of '' @ rupee @ ''250.00.''"
proof -
  have a: "rule_based_body plain_library ''total spent'' (Inl (Exception ''['Date']''))
      = Inl (Exception ''['Date']'')"
    by (simp add: rule_based_body_def)
  have l: "int_max_str_digits plain_library = 4300"
    by (simp add: plain_library_def)
  have s: "show_nat 4300 = ''4300''" "show_nat 4301 = ''4301''"
    by (simp_all add: show_nat.simps digit_char_def char_of_def bit_0)
  have b: "rule_based_body plain_library (''last '' @ replicate 4301 CHR ''7'' @ '' expenses'')
        (Inr (Some food_travel))
      = Inl (Exception ''Exceeds the limit (4300 digits) for integer string conversion: value has 4301 digits; use sys.set_int_max_str_digits() to increase the limit'')"
    using long_count_raises [OF food_travel_ok, of "replicate 4301 CHR ''7''" plain_library]
    by (simp add: l s is_digit_def)
  show ?thesis
    using exceptions_become_text [of plain_library "''total spent''"
        "Inl (Exception ''['Date']'')" "Exception ''['Date']''"]
      exceptions_become_text [of plain_library
        "''last '' @ replicate 4301 CHR ''7'' @ '' expenses''" "Inr (Some food_travel)"
        "Exception ''Exceeds the limit (4300 digits) for integer string conversion: value has 4301 digits; use sys.set_int_max_str_digits() to increase the limit''"]
      exceptions_become_text [of plain_library "''total spent''" "Inr (Some food_travel)" _
        "''You've spent a total of '' @ rupee @ ''250.00.''"]
      a b food_travel_total
    by simp
qed

section \<open>The fallback from the language model\<close>

lemma strip_total: "strip ''total spent'' = ''total spent''"
  by (simp add: strip_def char_defs)

lemma strip_padded: "strip padded_query = ''total spent''"
  by (simp add: padded_query_def strip_def char_defs)

lemma failure_answers:
  "is_failure_answer not_configured_message"
  "is_failure_answer not_installed_message"
  "is_failure_answer (''AI response error: '' @ m)"
  by (simp_all add: is_failure_answer_def not_configured_message_def not_installed_message_def)

text \<open>Every way out of \<^verbatim>\<open>_llm_answer\<close> through one of its handlers gives a text with
  a failure prefix.\<close>

lemma llm_failure_is_failure_answer:
  assumes "openai_api_key sv = None \<or> openai_api_key sv = Some []
    \<or> (\<exists>e. fst (llm_answer_body sv query ctx) = Inl e)"
  shows "is_failure_answer (fst (llm_answer sv query ctx))"
proof (cases "openai_api_key sv")
  case None
  then show ?thesis
    by (simp add: llm_answer_def failure_answers)
next
  case (Some api_key)
  show ?thesis
  proof (cases "api_key = []")
    case True
    then show ?thesis
      using Some by (simp add: llm_answer_def failure_answers)
  next
    case False
    then obtain e where "fst (llm_answer_body sv query ctx) = Inl e"
      using assms Some by auto
    then show ?thesis
      using Some False
      by (cases "llm_answer_body sv query ctx"; cases e)
         (simp_all add: llm_answer_def is_failure_answer_def not_installed_message_def)
  qed
qed

text \<open>The context of a frame with rows and a \<^verbatim>\<open>Date\<close> column cannot be written as
  JSON: the request is never made, and the answer is that of the resolver, with or
  without a key.\<close>

lemma dated_frame_never_asks_model:
  assumes "load_data sv = Inr (Some df)" and "\<not> df_empty df" and "has_column df ''Amount''"
    and "has_column df ''Category''" and "has_column df ''Date''" and "strip s \<noteq> []"
  shows "handle_query lib sv (Some s)
     = (rule_based_answer lib (strip s) (load_data sv), [LoadData, RuleBasedAnswer, LoadData])"
proof -
  obtain r rs where r: "rows df = r # rs"
    using assms(2) by (cases "rows df") (auto simp: df_empty_def)
  obtain e where j: "json_dumps_error (load_context lib (load_data sv)) = Some e"
    using assms(1-5) by (simp add: load_context_def json_dumps_error_def r has_column_def)
  have b: "\<exists>e. llm_answer_body sv q (load_context lib (load_data sv)) = (Inl e, [])" for q
    by (simp add: llm_answer_body_def j split: option.splits)
  then have "\<exists>e. fst (llm_answer_body sv q (load_context lib (load_data sv))) = Inl e" for q
    by (metis fst_conv)
  then have f: "is_failure_answer (fst (llm_answer sv q (load_context lib (load_data sv))))" for q
    using llm_failure_is_failure_answer by blast
  have c: "snd (llm_answer sv q (load_context lib (load_data sv))) = []" for q
  proof -
    obtain e where "llm_answer_body sv q (load_context lib (load_data sv)) = (Inl e, [])"
      using b by blast
    then show ?thesis
      by (cases e) (simp_all add: llm_answer_def split: option.splits)
  qed
  obtain ai_answer called
    where p: "llm_answer sv (strip s) (load_context lib (load_data sv)) = (ai_answer, called)"
    by (cases "llm_answer sv (strip s) (load_context lib (load_data sv))")
  have "is_failure_answer ai_answer" and "called = []"
    using f [of "strip s"] c [of "strip s"] by (simp_all add: p)
  then show ?thesis
    using assms(6) by (simp add: handle_query_def p)
qed

text \<open>C9. For an input that is not blank, \<^verbatim>\<open>handle_query\<close> returns the answer
  of the rule-based resolver to the stripped query when the answer of
  \<^verbatim>\<open>_llm_answer\<close> starts with one of the three failure prefixes, and the answer of
  \<^verbatim>\<open>_llm_answer\<close> itself in every other case. The test is on the text alone: a reply
  of the model that starts with such a prefix goes to the resolver too.\<close>

theorem fallback_on_failure_prefix:
  assumes "strip s \<noteq> []"
  shows "fst (handle_query lib sv (Some s))
           = (let ai_answer = fst (llm_answer sv (strip s) (load_context lib (load_data sv)))
              in if startswith ai_answer ''ChatGPT integration is not configured''
                    \<or> startswith ai_answer ''The 'openai' package is not installed''
                    \<or> startswith ai_answer ''AI response error''
                 then rule_based_answer lib (strip s) (load_data sv)
                 else ai_answer)"
  using assms
  by (simp add: handle_query_def is_failure_answer_def Let_def split: prod.splits)

text \<open>C9 with no key configured and with the package missing, on the frame with Food
  100 and Travel 150; on the empty frame, whose context can be written as JSON, with a
  request that fails, with a reply of the model, which is returned as it is, and with a
  reply of the model that starts with a failure prefix, which is not; on the frame with
  Food 100 and Travel 150 with a model that would reply, where the context cannot be
  written and the resolver answers; and with a no-break space before the query and an
  ideographic space after it.\<close>

theorem fallback_on_failure_prefix_witness:
  "fst (handle_query plain_library offline (Some ''total spent''))
     = ''You've spent a total of '' @ rupee @ ''250.00.''
   \<and> fst (handle_query plain_library not_installed (Some ''total spent''))
     = ''You've spent a total of '' @ rupee @ ''250.00.''
   \<and> fst (handle_query plain_library failing (Some ''total spent''))
     = ''No expense data available yet. Add some expenses first.''
   \<and> fst (handle_query plain_library (online no_rows ''You have no expenses yet.'')
        (Some ''total spent''))
     = ''You have no expenses yet.''
   \<and> fst (handle_query plain_library (online no_rows ''AI response error rates vary.'')
        (Some ''total spent''))
     = ''No expense data available yet. Add some expenses first.''
   \<and> fst (handle_query plain_library (online food_travel ''About 250 rupees.'')
        (Some ''total spent''))
     = ''You've spent a total of '' @ rupee @ ''250.00.''
   \<and> fst (handle_query plain_library offline (Some padded_query))
     = ''You've spent a total of '' @ rupee @ ''250.00.''"
proof -
  have ne: "strip ''total spent'' \<noteq> []"
    by (simp add: strip_total)
  have nu: "strip padded_query \<noteq> []"
    by (simp add: strip_padded)
  have r: "rule_based_answer plain_library ''total spent'' (Inr (Some food_travel))
     = ''You've spent a total of '' @ rupee @ ''250.00.''"
    by (simp add: rule_based_answer_def food_travel_total)
  have n: "rule_based_answer plain_library ''total spent'' (Inr (Some no_rows))
     = ''No expense data available yet. Add some expenses first.''"
    by (simp add: rule_based_answer_def rule_based_body_def no_rows_def df_empty_def
        no_data_message_def)
  have e: "load_data offline = Inr (Some food_travel)"
      "load_data not_installed = Inr (Some food_travel)"
      "load_data failing = Inr (Some no_rows)"
      "load_data (online df reply) = Inr (Some df)" for df reply
    by (simp_all add: offline_def not_installed_def failing_def online_def)
  have x: "load_context plain_library (Inr (Some no_rows)) = empty_context"
    by (simp add: load_context_def no_rows_def df_empty_def)
  have j: "json_dumps_error empty_context = None"
      "json_dumps_error (load_context plain_library (Inr (Some food_travel)))
        = Some (Exception ''Object of type Timestamp is not JSON serializable'')"
    by (simp_all add: json_dumps_error_def empty_context_def load_context_def food_travel_def
        frame_defs)
  have a: "fst (llm_answer offline q c) = not_configured_message" for q c
    by (simp add: llm_answer_def offline_def)
  have b: "fst (llm_answer not_installed q c) = not_installed_message" for q c
    by (simp add: llm_answer_def llm_answer_body_def not_installed_def)
  have c: "fst (llm_answer failing q empty_context) = ''AI response error: Connection error.''"
    for q
    by (simp add: llm_answer_def llm_answer_body_def failing_def j)
  have d: "fst (llm_answer (online df reply) q empty_context) = strip reply" for df reply q
    by (simp add: llm_answer_def llm_answer_body_def online_def j)
  have f: "fst (llm_answer (online df reply) q
        (load_context plain_library (Inr (Some food_travel))))
      = ''AI response error: Object of type Timestamp is not JSON serializable''" for df reply q
    by (simp add: llm_answer_def llm_answer_body_def online_def j)
  have s: "strip ''You have no expenses yet.'' = ''You have no expenses yet.''"
      "strip ''AI response error rates vary.'' = ''AI response error rates vary.''"
    by (simp_all add: strip_def char_defs)
  show ?thesis
    using fallback_on_failure_prefix [OF ne, of plain_library offline]
      fallback_on_failure_prefix [OF ne, of plain_library not_installed]
      fallback_on_failure_prefix [OF ne, of plain_library failing]
      fallback_on_failure_prefix [OF ne, of plain_library
        "online no_rows ''You have no expenses yet.''"]
      fallback_on_failure_prefix [OF ne, of plain_library
        "online no_rows ''AI response error rates vary.''"]
      fallback_on_failure_prefix [OF ne, of plain_library
        "online food_travel ''About 250 rupees.''"]
      fallback_on_failure_prefix [OF nu, of plain_library offline]
    by (simp add: strip_total strip_padded a b c d f s e x r n not_configured_message_def
        not_installed_message_def)
qed

end
